theory Spec2Isabelle
  imports Main "HOL-Library.Sublist"
begin

section \<open>JavaScript values\<close>

text \<open>
  Arguments whose run-time shape the code inspects (\<open>sessionCookieOptions\<close>, provider
  configurations, tenant options) are JSON-like values. An object is the list of its own
  enumerable properties in enumeration order. Numbers are integers here: the code only
  compares and multiplies them.
\<close>

datatype js_value =
    JsUndefined
  | JsNull
  | JsBoolean bool
  | JsNumber int
  | JsString string
  | JsArray "js_value list"
  | JsObject "(string \<times> js_value) list"

text \<open>
  Modelled from the spec: the helpers of \<open>utils/validator\<close> are not among the sources.
  They are taken by their names and by the way the code relies on them: \<open>isObject\<close> is
  \<open>typeof value === 'object'\<close> for a value that is not an array (so \<open>null\<close> passes),
  \<open>isNonNullObject\<close> excludes \<open>null\<close>, \<open>isNumber\<close> and \<open>isString\<close> test the type,
  \<open>isNonEmptyString\<close> also excludes the empty string.
\<close>

fun isObject :: "js_value \<Rightarrow> bool" where
  "isObject JsNull = True"
| "isObject (JsObject ps) = True"
| "isObject v = False"

definition isNonNullObject :: "js_value \<Rightarrow> bool" where
  "isNonNullObject v = (isObject v \<and> v \<noteq> JsNull)"

fun isNumber :: "js_value \<Rightarrow> bool" where
  "isNumber (JsNumber n) = True"
| "isNumber v = False"

fun isString :: "js_value \<Rightarrow> bool" where
  "isString (JsString s) = True"
| "isString v = False"

fun isNonEmptyString :: "js_value \<Rightarrow> bool" where
  "isNonEmptyString (JsString s) = (s \<noteq> [])"
| "isNonEmptyString v = False"

text \<open>
  Property read \<open>value.key\<close>. The code reads a property only after \<open>isNonNullObject\<close>
  has passed, and only the names \<open>expiresIn\<close>, \<open>providerId\<close>, \<open>displayName\<close>,
  \<open>emailSignInConfig\<close>, \<open>multiFactorConfig\<close> and \<open>testPhoneNumbers\<close>, none of which
  \<open>Object.prototype\<close> defines: an absent own property reads as \<open>undefined\<close>.
\<close>

fun js_get :: "js_value \<Rightarrow> string \<Rightarrow> js_value" where
  "js_get (JsObject ps) k = (case map_of ps k of Some v \<Rightarrow> v | None \<Rightarrow> JsUndefined)"
| "js_get v k = JsUndefined"

text \<open>The keys a \<open>for (const key in value)\<close> loop visits, and \<open>Object.keys\<close>.\<close>

fun js_keys :: "js_value \<Rightarrow> string list" where
  "js_keys (JsObject ps) = map fst ps"
| "js_keys v = []"

text \<open>
  The property names every object literal inherits from \<open>Object.prototype\<close>. The
  operator \<open>key in object\<close> looks through the prototype chain, so it holds for these
  names on any object literal.
\<close>

definition object_prototype_properties :: "string list" where
  "object_prototype_properties =
     [''constructor'', ''__defineGetter__'', ''__defineSetter__'', ''hasOwnProperty'',
      ''__lookupGetter__'', ''__lookupSetter__'', ''isPrototypeOf'',
      ''propertyIsEnumerable'', ''toString'', ''valueOf'', ''__proto__'',
      ''toLocaleString'']"

definition js_in :: "string \<Rightarrow> string list \<Rightarrow> bool" where
  "js_in k own_keys = (k \<in> set own_keys \<or> k \<in> set object_prototype_properties)"

section \<open>Errors and promises\<close>

datatype auth_client_error_code =
    INVALID_ARGUMENT
  | INTERNAL_ERROR
  | INVALID_ID_TOKEN
  | INVALID_SESSION_COOKIE_DURATION
  | INVALID_PROVIDER_ID
  | INVALID_CONFIG
  | INVALID_TESTING_PHONE_NUMBER
  | MAXIMUM_TEST_PHONE_NUMBER_EXCEEDED
  | MISMATCHING_TENANT_ID
  | ID_TOKEN_REVOKED
  | SESSION_COOKIE_REVOKED
  | USER_NOT_DISABLED
  | OtherErrorCode string

text \<open>
  \<open>new FirebaseAuthError(code, message)\<close>; the message is \<open>None\<close> when the constructor
  is given none (or \<open>undefined\<close>). \<open>TypeError\<close> is the run-time error of reading a
  property of \<open>undefined\<close> or \<open>null\<close>.
\<close>

datatype js_error =
    FirebaseAuthError auth_client_error_code "string option"
  | TypeError

section \<open>Identifiers, user records and tokens\<close>

text \<open>
  \<open>UserIdentifier\<close> is the union of the four identifier shapes; \<open>UnhandledIdentifier\<close>
  stands for a value that passes none of \<open>isUidIdentifier\<close>, \<open>isEmailIdentifier\<close>,
  \<open>isPhoneIdentifier\<close>, \<open>isProviderIdentifier\<close>.
\<close>

datatype user_identifier =
    UidIdentifier string
  | EmailIdentifier string
  | PhoneIdentifier string
  | ProviderIdentifier string string
  | UnhandledIdentifier

record user_info =
  providerId :: string
  userInfo_uid :: string

record user_record =
  uid :: string
  email :: "string option"
  phoneNumber :: "string option"
  providerData :: "user_info list"
  tokensValidAfterTime :: "string option"

record firebase_claims =
  sign_in_provider :: string
  tenant :: "string option"

record decoded_id_token =
  sub :: string
  auth_time :: int
  firebase :: firebase_claims

text \<open>The requests that reach the account directory, in the order they are issued.\<close>

datatype rpc =
    GetAccountByUid string
  | GetAccountsByIdentifiers "user_identifier list"
  | DeleteAccounts "string list" bool
  | CreateSessionCookie string int
  | CreateOidcConfig js_value
  | CreateSamlConfig js_value
  | UpdateOidcConfig string js_value
  | UpdateSamlConfig string js_value

text \<open>
  A promise that has settled: its outcome (\<open>Inl\<close> a rejection or a thrown error,
  \<open>Inr\<close> the value it resolves with) and the directory requests issued on the way.
\<close>

type_synonym 'a promise = "(js_error + 'a) \<times> rpc list"

definition resolve :: "'a \<Rightarrow> 'a promise" where
  "resolve x = (Inr x, [])"

definition reject :: "js_error \<Rightarrow> 'a promise" where
  "reject e = (Inl e, [])"

definition settle :: "js_error + 'a \<Rightarrow> 'a promise" where
  "settle r = (r, [])"

text \<open>\<open>p.then(f)\<close>: a rejection passes through, a value is handed to \<open>f\<close>.\<close>

definition promise_then :: "'a promise \<Rightarrow> ('a \<Rightarrow> 'b promise) \<Rightarrow> 'b promise" where
  "promise_then p f =
     (case p of
        (Inl e, t) \<Rightarrow> (Inl e, t)
      | (Inr x, t) \<Rightarrow> (case f x of (r, t') \<Rightarrow> (r, t @ t')))"

text \<open>\<open>xs.map(f)\<close> where \<open>f\<close> may throw: the first throw ends the loop.\<close>

fun map_throwing :: "('a \<Rightarrow> js_error + 'b) \<Rightarrow> 'a list \<Rightarrow> js_error + 'b list" where
  "map_throwing f [] = Inr []"
| "map_throwing f (x # xs) =
     (case f x of
        Inl e \<Rightarrow> Inl e
      | Inr y \<Rightarrow> (case map_throwing f xs of Inl e \<Rightarrow> Inl e | Inr ys \<Rightarrow> Inr (y # ys)))"

section \<open>Collaborators\<close>

text \<open>
  The request handler (\<open>auth-api-request\<close>) is not among the sources; \<open>BaseAuthImpl\<close> is
  generic in it. Each method returns a promise, with the directory requests it issued.
\<close>

record get_account_info_response =
  response_users :: "js_value list option"

record batch_delete_error_info =
  info_index :: "int option"
  info_localId :: "string option"
  info_message :: "string option"

record batch_delete_accounts_response =
  response_errors :: "batch_delete_error_info list option"

record auth_request_handler =
  getAccountInfoByUid :: "string \<Rightarrow> get_account_info_response promise"
  getAccountInfoByIdentifiers :: "user_identifier list \<Rightarrow> get_account_info_response promise"
  deleteAccounts :: "string list \<Rightarrow> bool \<Rightarrow> batch_delete_accounts_response promise"
  handler_createSessionCookie :: "string \<Rightarrow> int \<Rightarrow> string promise"
  createOAuthIdpConfig :: "js_value \<Rightarrow> js_value promise"
  createInboundSamlConfig :: "js_value \<Rightarrow> js_value promise"
  updateOAuthIdpConfig :: "string \<Rightarrow> js_value \<Rightarrow> js_value promise"
  updateInboundSamlConfig :: "string \<Rightarrow> js_value \<Rightarrow> js_value promise"

datatype auth_provider_config = OIDCConfig js_value | SAMLConfig js_value

text \<open>
  The constructors and library calls the code uses without defining them:
  \<open>new UserRecord(response)\<close>, \<open>new OIDCConfig(response)\<close> and
  \<open>new SAMLConfig(response)\<close> (each may throw), \<open>new Date(string).getTime()\<close>
  (\<open>None\<close> is \<open>NaN\<close>), and, for the tenant options, \<open>validator.isPhoneNumber\<close>,
  \<open>EmailSignInConfig.buildServerRequest\<close> and \<open>MultiFactorAuthConfig.buildServerRequest\<close>
  (each of the last two throws on a malformed argument).
\<close>

record collaborators =
  new_UserRecord :: "js_value \<Rightarrow> js_error + user_record"
  new_OIDCConfig :: "js_value \<Rightarrow> js_error + auth_provider_config"
  new_SAMLConfig :: "js_value \<Rightarrow> js_error + auth_provider_config"
  Date_getTime :: "string \<Rightarrow> int option"
  isPhoneNumber :: "string \<Rightarrow> bool"
  EmailSignInConfig_buildServerRequest :: "js_value \<Rightarrow> js_error + js_value"
  MultiFactorAuthConfig_buildServerRequest :: "js_value \<Rightarrow> js_error + js_value"

text \<open>
  A \<open>BaseAuthImpl\<close> instance: its request handler and its two token verifiers
  (\<open>verifyJWT\<close>, which decodes and checks a token locally). \<open>TenantAwareAuthImpl\<close>
  extends it with the tenant id.
\<close>

record base_auth =
  authRequestHandler :: auth_request_handler
  idTokenVerifier :: "string \<Rightarrow> js_error + decoded_id_token"
  sessionCookieVerifier :: "string \<Rightarrow> js_error + decoded_id_token"

record tenant_aware_auth = base_auth +
  tenantId :: string

section \<open>BaseAuthImpl: token verification\<close>

definition getUser ::
  "collaborators \<Rightarrow> 'a base_auth_scheme \<Rightarrow> string \<Rightarrow> user_record promise" where
  "getUser c a u =
     promise_then (getAccountInfoByUid (authRequestHandler a) u)
       (\<lambda>response.
          case response_users response of
            None \<Rightarrow> reject TypeError
          | Some us \<Rightarrow> settle (new_UserRecord c (case us of [] \<Rightarrow> JsUndefined | r # rs \<Rightarrow> r)))"

text \<open>\<open>a < b\<close> on numbers, where \<open>b\<close> may be \<open>NaN\<close>: a comparison with \<open>NaN\<close> is false.\<close>

fun js_less :: "int \<Rightarrow> int option \<Rightarrow> bool" where
  "js_less a None = False"
| "js_less a (Some b) = (a < b)"

text \<open>
  \<open>if (user.tokensValidAfterTime)\<close> tests truthiness: \<open>undefined\<close> and the empty
  string are falsy, every other string is truthy.
\<close>

definition verifyDecodedJWTNotRevoked ::
  "collaborators \<Rightarrow> 'a base_auth_scheme \<Rightarrow> decoded_id_token \<Rightarrow> auth_client_error_code
     \<Rightarrow> decoded_id_token promise" where
  "verifyDecodedJWTNotRevoked c a decodedIdToken revocationErrorInfo =
     promise_then (getUser c a (sub decodedIdToken))
       (\<lambda>user.
          case tokensValidAfterTime user of
            None \<Rightarrow> resolve decodedIdToken
          | Some s \<Rightarrow>
              if s = [] then resolve decodedIdToken
              else
                (let authTimeUtc = auth_time decodedIdToken * 1000;
                     validSinceUtc = Date_getTime c s
                 in if js_less authTimeUtc validSinceUtc
                    then reject (FirebaseAuthError revocationErrorInfo None)
                    else resolve decodedIdToken))"

definition verifyIdToken ::
  "collaborators \<Rightarrow> 'a base_auth_scheme \<Rightarrow> string \<Rightarrow> bool \<Rightarrow> decoded_id_token promise" where
  "verifyIdToken c a idToken checkRevoked =
     promise_then (settle (idTokenVerifier a idToken))
       (\<lambda>decodedIdToken.
          if \<not> checkRevoked then resolve decodedIdToken
          else verifyDecodedJWTNotRevoked c a decodedIdToken ID_TOKEN_REVOKED)"

definition verifySessionCookie ::
  "collaborators \<Rightarrow> 'a base_auth_scheme \<Rightarrow> string \<Rightarrow> bool \<Rightarrow> decoded_id_token promise" where
  "verifySessionCookie c a sessionCookie checkRevoked =
     promise_then (settle (sessionCookieVerifier a sessionCookie))
       (\<lambda>decodedIdToken.
          if \<not> checkRevoked then resolve decodedIdToken
          else verifyDecodedJWTNotRevoked c a decodedIdToken SESSION_COOKIE_REVOKED)"

section \<open>BaseAuthImpl: batch lookup and batch delete\<close>

text \<open>An argument declared as an array, which the code tests with \<open>validator.isArray\<close>.\<close>

datatype 'a js_array_arg = NotAnArray | ArrayOf "'a list"

definition backtick :: string where
  "backtick = [CHR 0x60]"

definition dquote :: string where
  "dquote = [CHR 0x22]"

text \<open>
  The callback of \<open>userRecords.find\<close> inside \<open>isUserFound\<close>: whether one user record
  satisfies the identifier. For a provider identifier it takes the first entry of
  \<open>providerData\<close> with the identifier's provider id and compares that entry's uid.
\<close>

fun isUserFound_callback :: "user_identifier \<Rightarrow> user_record \<Rightarrow> js_error + bool" where
  "isUserFound_callback (UidIdentifier u) userRecord = Inr (u = uid userRecord)"
| "isUserFound_callback (EmailIdentifier e) userRecord = Inr (Some e = email userRecord)"
| "isUserFound_callback (PhoneIdentifier p) userRecord = Inr (Some p = phoneNumber userRecord)"
| "isUserFound_callback (ProviderIdentifier pid puid) userRecord =
     (let matchingUserInfo = List.find (\<lambda>userInfo. pid = providerId userInfo) (providerData userRecord)
      in Inr (case matchingUserInfo of
                None \<Rightarrow> False
              | Some userInfo \<Rightarrow> puid = userInfo_uid userInfo))"
| "isUserFound_callback UnhandledIdentifier userRecord =
     Inl (FirebaseAuthError INTERNAL_ERROR (Some ''Unhandled identifier type''))"

fun isUserFound :: "user_identifier \<Rightarrow> user_record list \<Rightarrow> js_error + bool" where
  "isUserFound i [] = Inr False"
| "isUserFound i (userRecord # userRecords) =
     (case isUserFound_callback i userRecord of
        Inl e \<Rightarrow> Inl e
      | Inr found \<Rightarrow> if found then Inr True else isUserFound i userRecords)"

text \<open>\<open>xs.filter(p)\<close> where \<open>p\<close> may throw.\<close>

fun filter_throwing :: "('a \<Rightarrow> js_error + bool) \<Rightarrow> 'a list \<Rightarrow> js_error + 'a list" where
  "filter_throwing p [] = Inr []"
| "filter_throwing p (x # xs) =
     (case p x of
        Inl e \<Rightarrow> Inl e
      | Inr keep \<Rightarrow>
          (case filter_throwing p xs of
             Inl e \<Rightarrow> Inl e
           | Inr ys \<Rightarrow> Inr (if keep then x # ys else ys)))"

record get_users_result =
  users :: "user_record list"
  notFound :: "user_identifier list"

definition getUsers ::
  "collaborators \<Rightarrow> 'a base_auth_scheme \<Rightarrow> user_identifier js_array_arg
     \<Rightarrow> get_users_result promise" where
  "getUsers c a identifiers =
     (case identifiers of
        NotAnArray \<Rightarrow>
          reject (FirebaseAuthError INVALID_ARGUMENT
            (Some (backtick @ ''identifiers'' @ backtick @ '' parameter must be an array'')))
      | ArrayOf ids \<Rightarrow>
          promise_then (getAccountInfoByIdentifiers (authRequestHandler a) ids)
            (\<lambda>response.
               case (case response_users response of
                       None \<Rightarrow> Inr []
                     | Some us \<Rightarrow> map_throwing (new_UserRecord c) us) of
                 Inl e \<Rightarrow> reject e
               | Inr us \<Rightarrow>
                   (case filter_throwing (\<lambda>i. map_sum id Not (isUserFound i us)) ids of
                      Inl e \<Rightarrow> reject e
                    | Inr nf \<Rightarrow> resolve \<lparr>users = us, notFound = nf\<rparr>)))"

record delete_users_error =
  index :: int
  error :: js_error

record delete_users_result =
  failureCount :: int
  successCount :: int
  errors :: "delete_users_error list"

text \<open>
  \<open>errMsgToError\<close> is local to the mapping of one \<open>batchDeleteErrorInfo\<close>: the error kind
  comes from its argument \<open>msg\<close> (\<open>msg && msg.startsWith('NOT_DISABLED')\<close>), the
  message from \<open>batchDeleteErrorInfo.message\<close>.
\<close>

definition errMsgToError :: "batch_delete_error_info \<Rightarrow> string option \<Rightarrow> js_error" where
  "errMsgToError batchDeleteErrorInfo msg =
     (let errorCode =
        (case msg of
           None \<Rightarrow> INTERNAL_ERROR
         | Some m \<Rightarrow>
             if m \<noteq> [] \<and> prefix ''NOT_DISABLED'' m then USER_NOT_DISABLED else INTERNAL_ERROR)
      in FirebaseAuthError errorCode (info_message batchDeleteErrorInfo))"

definition deleteUsers_mapError :: "batch_delete_error_info \<Rightarrow> js_error + delete_users_error" where
  "deleteUsers_mapError batchDeleteErrorInfo =
     (case info_index batchDeleteErrorInfo of
        None \<Rightarrow>
          Inl (FirebaseAuthError INTERNAL_ERROR
                 (Some ''Corrupt BatchDeleteAccountsResponse detected''))
      | Some i \<Rightarrow>
          Inr \<lparr>index = i,
               error = errMsgToError batchDeleteErrorInfo (info_message batchDeleteErrorInfo)\<rparr>)"

definition deleteUsers ::
  "'a base_auth_scheme \<Rightarrow> string js_array_arg \<Rightarrow> delete_users_result promise" where
  "deleteUsers a uids =
     (case uids of
        NotAnArray \<Rightarrow>
          reject (FirebaseAuthError INVALID_ARGUMENT
            (Some (backtick @ ''uids'' @ backtick @ '' parameter must be an array'')))
      | ArrayOf us \<Rightarrow>
          promise_then (deleteAccounts (authRequestHandler a) us True)
            (\<lambda>batchDeleteAccountsResponse.
               let result = \<lparr>failureCount = 0, successCount = int (length us), errors = []\<rparr>
               in case response_errors batchDeleteAccountsResponse of
                    None \<Rightarrow> resolve result
                  | Some es \<Rightarrow>
                      if es = [] then resolve result
                      else
                        (case map_throwing deleteUsers_mapError es of
                           Inl e \<Rightarrow> reject e
                         | Inr mapped \<Rightarrow>
                             resolve
                               (result\<lparr>failureCount := int (length es),
                                        successCount := int (length us) - int (length es),
                                        errors := mapped\<rparr>))))"

section \<open>BaseAuthImpl: session cookies and provider configurations\<close>

definition createSessionCookie ::
  "'a base_auth_scheme \<Rightarrow> string \<Rightarrow> js_value \<Rightarrow> string promise" where
  "createSessionCookie a idToken sessionCookieOptions =
     (if \<not> isNonNullObject sessionCookieOptions \<or>
         \<not> isNumber (js_get sessionCookieOptions ''expiresIn'')
      then reject (FirebaseAuthError INVALID_SESSION_COOKIE_DURATION None)
      else
        (case js_get sessionCookieOptions ''expiresIn'' of
           JsNumber expiresIn \<Rightarrow>
             handler_createSessionCookie (authRequestHandler a) idToken expiresIn
         | _ \<Rightarrow> reject (FirebaseAuthError INVALID_SESSION_COOKIE_DURATION None)))"

text \<open>
  Modelled from the spec: \<open>OIDCConfig.isProviderId\<close> and \<open>SAMLConfig.isProviderId\<close>
  (\<open>auth-config-internal\<close>) are not among the sources. A provider id is of the OIDC
  kind when it is a string with the prefix \<open>oidc.\<close>, of the SAML kind with the prefix
  \<open>saml.\<close>.
\<close>

fun OIDCConfig_isProviderId :: "js_value \<Rightarrow> bool" where
  "OIDCConfig_isProviderId (JsString s) = prefix ''oidc.'' s"
| "OIDCConfig_isProviderId v = False"

fun SAMLConfig_isProviderId :: "js_value \<Rightarrow> bool" where
  "SAMLConfig_isProviderId (JsString s) = prefix ''saml.'' s"
| "SAMLConfig_isProviderId v = False"

definition updateProviderConfig ::
  "collaborators \<Rightarrow> 'a base_auth_scheme \<Rightarrow> string \<Rightarrow> js_value
     \<Rightarrow> auth_provider_config promise" where
  "updateProviderConfig c a pid updatedConfig =
     (if \<not> isNonNullObject updatedConfig then
        reject (FirebaseAuthError INVALID_CONFIG
          (Some (''Request is missing '' @ dquote @ ''UpdateAuthProviderRequest'' @ dquote @
                 '' configuration.'')))
      else if OIDCConfig_isProviderId (JsString pid) then
        promise_then (updateOAuthIdpConfig (authRequestHandler a) pid updatedConfig)
          (\<lambda>response. settle (new_OIDCConfig c response))
      else if SAMLConfig_isProviderId (JsString pid) then
        promise_then (updateInboundSamlConfig (authRequestHandler a) pid updatedConfig)
          (\<lambda>response. settle (new_SAMLConfig c response))
      else reject (FirebaseAuthError INVALID_PROVIDER_ID None))"

definition createProviderConfig ::
  "collaborators \<Rightarrow> 'a base_auth_scheme \<Rightarrow> js_value \<Rightarrow> auth_provider_config promise" where
  "createProviderConfig c a config =
     (if \<not> isNonNullObject config then
        reject (FirebaseAuthError INVALID_CONFIG
          (Some (''Request is missing '' @ dquote @ ''AuthProviderConfig'' @ dquote @
                 '' configuration.'')))
      else if OIDCConfig_isProviderId (js_get config ''providerId'') then
        promise_then (createOAuthIdpConfig (authRequestHandler a) config)
          (\<lambda>response. settle (new_OIDCConfig c response))
      else if SAMLConfig_isProviderId (js_get config ''providerId'') then
        promise_then (createInboundSamlConfig (authRequestHandler a) config)
          (\<lambda>response. settle (new_SAMLConfig c response))
      else reject (FirebaseAuthError INVALID_PROVIDER_ID None))"

section \<open>TenantAwareAuthImpl\<close>

definition tenantAware_verifyIdToken ::
  "collaborators \<Rightarrow> 'a tenant_aware_auth_scheme \<Rightarrow> string \<Rightarrow> bool
     \<Rightarrow> decoded_id_token promise" where
  "tenantAware_verifyIdToken c a idToken checkRevoked =
     promise_then (verifyIdToken c a idToken checkRevoked)
       (\<lambda>decodedClaims.
          if tenant (firebase decodedClaims) \<noteq> Some (tenantId a)
          then reject (FirebaseAuthError MISMATCHING_TENANT_ID None)
          else resolve decodedClaims)"

definition tenantAware_verifySessionCookie ::
  "collaborators \<Rightarrow> 'a tenant_aware_auth_scheme \<Rightarrow> string \<Rightarrow> bool
     \<Rightarrow> decoded_id_token promise" where
  "tenantAware_verifySessionCookie c a sessionCookie checkRevoked =
     promise_then (verifySessionCookie c a sessionCookie checkRevoked)
       (\<lambda>decodedClaims.
          if tenant (firebase decodedClaims) \<noteq> Some (tenantId a)
          then reject (FirebaseAuthError MISMATCHING_TENANT_ID None)
          else resolve decodedClaims)"

definition tenantAware_createSessionCookie ::
  "collaborators \<Rightarrow> 'a tenant_aware_auth_scheme \<Rightarrow> string \<Rightarrow> js_value \<Rightarrow> string promise" where
  "tenantAware_createSessionCookie c a idToken sessionCookieOptions =
     (if \<not> isNonEmptyString (JsString idToken) then
        reject (FirebaseAuthError INVALID_ID_TOKEN None)
      else if \<not> isNonNullObject sessionCookieOptions \<or>
              \<not> isNumber (js_get sessionCookieOptions ''expiresIn'') then
        reject (FirebaseAuthError INVALID_SESSION_COOKIE_DURATION None)
      else
        promise_then (tenantAware_verifyIdToken c a idToken False)
          (\<lambda>decodedClaims. createSessionCookie a idToken sessionCookieOptions))"

section \<open>Tenant options (tenant-internal)\<close>

text \<open>
  Sequencing of statements that may throw: the first error ends the function.
\<close>

definition and_then :: "js_error + 'a \<Rightarrow> ('a \<Rightarrow> js_error + 'b) \<Rightarrow> js_error + 'b" where
  "and_then r k = (case r of Inl e \<Rightarrow> Inl e | Inr x \<Rightarrow> k x)"

text \<open>The text a template literal \<open>${value}\<close> inserts for a value.\<close>

definition digit_char :: "nat \<Rightarrow> char" where
  "digit_char d = (''0123456789'' ! (d mod 10))"

fun show_nat :: "nat \<Rightarrow> string" where
  "show_nat n = (if n < 10 then [digit_char n] else show_nat (n div 10) @ [digit_char (n mod 10)])"

definition show_int :: "int \<Rightarrow> string" where
  "show_int i = (if i < 0 then ''-'' @ show_nat (nat (- i)) else show_nat (nat i))"

fun join_commas :: "string list \<Rightarrow> string" where
  "join_commas [] = []"
| "join_commas [s] = s"
| "join_commas (s # t # ss) = s @ '','' @ join_commas (t # ss)"

fun js_toString :: "js_value \<Rightarrow> string" where
  "js_toString JsUndefined = ''undefined''"
| "js_toString JsNull = ''null''"
| "js_toString (JsBoolean b) = (if b then ''true'' else ''false'')"
| "js_toString (JsNumber n) = show_int n"
| "js_toString (JsString s) = s"
| "js_toString (JsArray vs) =
     join_commas (map (\<lambda>v. if v = JsUndefined \<or> v = JsNull then [] else js_toString v) vs)"
| "js_toString (JsObject ps) = ''[object Object]''"

definition MAXIMUM_TEST_PHONE_NUMBERS :: nat where
  "MAXIMUM_TEST_PHONE_NUMBERS = 10"

text \<open>The regular expression \<open>/^[\d]{6}$/\<close>: exactly six decimal digits.\<close>

definition six_digits :: "string \<Rightarrow> bool" where
  "six_digits s = (length s = 6 \<and> list_all (\<lambda>ch. List.member ''0123456789'' ch) s)"

text \<open>
  The loop \<open>for (const phoneNumber in testPhoneNumbers)\<close> of
  \<open>validateTestPhoneNumbers\<close>, over the keys still to visit (\<open>phoneNumberKey\<close> is
  the loop variable).
\<close>

fun validateTestPhoneNumbers_loop ::
  "collaborators \<Rightarrow> js_value \<Rightarrow> string list \<Rightarrow> js_error + unit" where
  "validateTestPhoneNumbers_loop c testPhoneNumbers [] = Inr ()"
| "validateTestPhoneNumbers_loop c testPhoneNumbers (phoneNumberKey # rest) =
     (if \<not> isPhoneNumber c phoneNumberKey then
        Inl (FirebaseAuthError INVALID_TESTING_PHONE_NUMBER
               (Some (dquote @ phoneNumberKey @ dquote @
                      '' is not a valid E.164 standard compliant phone number.'')))
      else if \<not> isString (js_get testPhoneNumbers phoneNumberKey) \<or>
              \<not> six_digits (js_toString (js_get testPhoneNumbers phoneNumberKey)) then
        Inl (FirebaseAuthError INVALID_TESTING_PHONE_NUMBER
               (Some (dquote @ js_toString (js_get testPhoneNumbers phoneNumberKey) @ dquote @
                      '' is not a valid 6 digit code string.'')))
      else validateTestPhoneNumbers_loop c testPhoneNumbers rest)"

definition validateTestPhoneNumbers :: "collaborators \<Rightarrow> js_value \<Rightarrow> js_error + unit" where
  "validateTestPhoneNumbers c testPhoneNumbers =
     (if \<not> isObject testPhoneNumbers then
        Inl (FirebaseAuthError INVALID_ARGUMENT
               (Some (dquote @ ''testPhoneNumbers'' @ dquote @
                      '' must be a map of phone number / code pairs.'')))
      else if testPhoneNumbers = JsNull then Inl TypeError
      else if length (js_keys testPhoneNumbers) > MAXIMUM_TEST_PHONE_NUMBERS then
        Inl (FirebaseAuthError MAXIMUM_TEST_PHONE_NUMBER_EXCEEDED None)
      else validateTestPhoneNumbers_loop c testPhoneNumbers (js_keys testPhoneNumbers))"

text \<open>The own keys of the object literal \<open>validKeys\<close> of \<open>TenantUtils.validate\<close>.\<close>

definition validKeys :: "string list" where
  "validKeys = [''displayName'', ''emailSignInConfig'', ''multiFactorConfig'', ''testPhoneNumbers'']"

text \<open>
  The loop \<open>for (const key in request)\<close> with its test \<open>!(key in validKeys)\<close>, over
  the keys still to visit.
\<close>

fun validate_keys :: "string \<Rightarrow> string list \<Rightarrow> js_error + unit" where
  "validate_keys label [] = Inr ()"
| "validate_keys label (key # rest) =
     (if \<not> js_in key validKeys then
        Inl (FirebaseAuthError INVALID_ARGUMENT
               (Some (dquote @ key @ dquote @ '' is not a valid '' @ label @ '' parameter.'')))
      else validate_keys label rest)"

definition validate :: "collaborators \<Rightarrow> js_value \<Rightarrow> bool \<Rightarrow> js_error + unit" where
  "validate c request createRequest =
     (let label = (if createRequest then ''CreateTenantRequest'' else ''UpdateTenantRequest'') in
      if \<not> isNonNullObject request then
        Inl (FirebaseAuthError INVALID_ARGUMENT
               (Some (dquote @ label @ dquote @ '' must be a valid non-null object.'')))
      else
        and_then (validate_keys label (js_keys request)) (\<lambda>_.
        and_then
          (if js_get request ''displayName'' \<noteq> JsUndefined \<and>
              \<not> isNonEmptyString (js_get request ''displayName'')
           then Inl (FirebaseAuthError INVALID_ARGUMENT
                       (Some (dquote @ label @ ''.displayName'' @ dquote @
                              '' must be a valid non-empty string.'')))
           else Inr ()) (\<lambda>_.
        and_then
          (if js_get request ''emailSignInConfig'' \<noteq> JsUndefined
           then and_then
                  (EmailSignInConfig_buildServerRequest c (js_get request ''emailSignInConfig''))
                  (\<lambda>_. Inr ())
           else Inr ()) (\<lambda>_.
        and_then
          (if js_get request ''testPhoneNumbers'' \<noteq> JsUndefined \<and>
              js_get request ''testPhoneNumbers'' \<noteq> JsNull
           then validateTestPhoneNumbers c (js_get request ''testPhoneNumbers'')
           else if js_get request ''testPhoneNumbers'' = JsNull \<and> createRequest
           then Inl (FirebaseAuthError INVALID_ARGUMENT
                       (Some (dquote @ label @ ''.testPhoneNumbers'' @ dquote @
                              '' must be a non-null object.'')))
           else Inr ()) (\<lambda>_.
          if js_get request ''multiFactorConfig'' \<noteq> JsUndefined
          then and_then
                 (MultiFactorAuthConfig_buildServerRequest c (js_get request ''multiFactorConfig''))
                 (\<lambda>_. Inr ())
          else Inr ())))))"

section \<open>The request handler's batch limits\<close>

text \<open>
  The account directory behind the request handler: what it answers to a batch lookup
  and to a batch delete.
\<close>

record account_directory =
  directory_getAccountsByIdentifiers ::
    "user_identifier list \<Rightarrow> js_error + get_account_info_response"
  directory_deleteAccounts ::
    "string list \<Rightarrow> bool \<Rightarrow> js_error + batch_delete_accounts_response"

text \<open>
  Modelled from the spec: \<open>getAccountInfoByIdentifiers\<close> of the request handler
  (\<open>auth-api-request\<close>, not among the sources). \<open>BaseAuthImpl.getUsers\<close> itself only
  tests that its argument is an array and hands the list over; the spec puts the size
  limit before any network call: more than 100 identifiers fail with
  \<open>INVALID_ARGUMENT\<close>, anything else is one request to the directory.
\<close>

definition spec_getAccountInfoByIdentifiers ::
  "account_directory \<Rightarrow> user_identifier list \<Rightarrow> get_account_info_response promise" where
  "spec_getAccountInfoByIdentifiers dir ids =
     (if length ids > 100 then reject (FirebaseAuthError INVALID_ARGUMENT None)
      else (directory_getAccountsByIdentifiers dir ids, [GetAccountsByIdentifiers ids]))"

text \<open>
  Modelled from the spec: \<open>deleteAccounts\<close> of the request handler (\<open>auth-api-request\<close>,
  not among the sources). \<open>BaseAuthImpl.deleteUsers\<close> itself only tests that its
  argument is an array; the spec's precondition, enforced before any network call, is
  \<open>0 < len(requestedUids) \<le> 1000\<close>, else \<open>INVALID_ARGUMENT\<close>.
\<close>

definition spec_deleteAccounts ::
  "account_directory \<Rightarrow> string list \<Rightarrow> bool \<Rightarrow> batch_delete_accounts_response promise" where
  "spec_deleteAccounts dir uids force =
     (if 0 < length uids \<and> length uids \<le> 1000
      then (directory_deleteAccounts dir uids force, [DeleteAccounts uids force])
      else reject (FirebaseAuthError INVALID_ARGUMENT None))"

section \<open>The matching rule of the batch lookup, in the spec's words\<close>

text \<open>
  When a returned account satisfies an identifier, as the spec states it: a uid, an email
  or a phone number by equality with the account's field, a provider link when the account
  has a provider entry with equal provider id and equal provider uid.
\<close>

fun spec_identifier_matches :: "user_identifier \<Rightarrow> user_record \<Rightarrow> bool" where
  "spec_identifier_matches (UidIdentifier x) u = (uid u = x)"
| "spec_identifier_matches (EmailIdentifier e) u = (email u = Some e)"
| "spec_identifier_matches (PhoneIdentifier p) u = (phoneNumber u = Some p)"
| "spec_identifier_matches (ProviderIdentifier p q) u =
     (\<exists>entry \<in> set (providerData u). providerId entry = p \<and> userInfo_uid entry = q)"
| "spec_identifier_matches UnhandledIdentifier u = False"

text \<open>
  The same rule with the provider link decided by the first entry only: the account has a
  provider entry with equal provider id, and the first such entry has equal provider uid.
\<close>

fun first_entry_matches :: "user_identifier \<Rightarrow> user_record \<Rightarrow> bool" where
  "first_entry_matches (ProviderIdentifier p q) u =
     (case filter (\<lambda>entry. providerId entry = p) (providerData u) of
        [] \<Rightarrow> False
      | entry # others \<Rightarrow> userInfo_uid entry = q)"
| "first_entry_matches i u = spec_identifier_matches i u"

section \<open>Example instances\<close>

text \<open>
  Concrete collaborators on which the theorems below are exercised: a user-record
  constructor reading \<open>localId\<close>, \<open>email\<close>, \<open>phoneNumber\<close>, \<open>validSince\<close> and
  \<open>providerUserInfo\<close>, a clock that knows one date, a verifier that knows three tokens,
  and a request handler answering from a given list of accounts and of delete errors.
\<close>

definition example_string_field :: "js_value \<Rightarrow> string \<Rightarrow> string option" where
  "example_string_field v k = (case js_get v k of JsString s \<Rightarrow> Some s | _ \<Rightarrow> None)"

definition example_UserInfo :: "js_value \<Rightarrow> user_info" where
  "example_UserInfo v =
     \<lparr>providerId = js_toString (js_get v ''providerId''),
      userInfo_uid = js_toString (js_get v ''rawId'')\<rparr>"

definition example_UserRecord :: "js_value \<Rightarrow> js_error + user_record" where
  "example_UserRecord response =
     (case js_get response ''localId'' of
        JsString u \<Rightarrow>
          Inr \<lparr>uid = u,
               email = example_string_field response ''email'',
               phoneNumber = example_string_field response ''phoneNumber'',
               providerData =
                 (case js_get response ''providerUserInfo'' of
                    JsArray vs \<Rightarrow> map example_UserInfo vs
                  | _ \<Rightarrow> []),
               tokensValidAfterTime = example_string_field response ''validSince''\<rparr>
      | _ \<Rightarrow> Inl (FirebaseAuthError INTERNAL_ERROR (Some ''Invalid user response'')))"

definition example_collaborators :: collaborators where
  "example_collaborators =
     \<lparr>new_UserRecord = example_UserRecord,
      new_OIDCConfig = (\<lambda>response. Inr (OIDCConfig response)),
      new_SAMLConfig = (\<lambda>response. Inr (SAMLConfig response)),
      Date_getTime = (\<lambda>s. if s = ''Thu, 01 Jan 1970 00:16:40 GMT'' then Some 1000000 else None),
      isPhoneNumber = (\<lambda>s. prefix ''+'' s),
      EmailSignInConfig_buildServerRequest = Inr,
      MultiFactorAuthConfig_buildServerRequest = Inr\<rparr>"

definition example_token :: "string \<Rightarrow> string option \<Rightarrow> decoded_id_token" where
  "example_token s t =
     \<lparr>sub = s, auth_time = 500, firebase = \<lparr>sign_in_provider = ''password'', tenant = t\<rparr>\<rparr>"

definition example_verifier :: "string \<Rightarrow> js_error + decoded_id_token" where
  "example_verifier token =
     (if token = ''alice-T1'' then Inr (example_token ''alice'' (Some ''T1''))
      else if token = ''bob-T1'' then Inr (example_token ''bob'' (Some ''T1''))
      else if token = ''alice-T2'' then Inr (example_token ''alice'' (Some ''T2''))
      else if token = ''alice'' then Inr (example_token ''alice'' None)
      else Inl (FirebaseAuthError (OtherErrorCode ''argument-error'') None))"

definition example_handler ::
  "js_value list \<Rightarrow> batch_delete_error_info list option \<Rightarrow> auth_request_handler" where
  "example_handler accounts deleteErrors =
     \<lparr>getAccountInfoByUid =
        (\<lambda>u. (Inr \<lparr>response_users =
                      Some (filter (\<lambda>v. js_get v ''localId'' = JsString u) accounts)\<rparr>,
              [GetAccountByUid u])),
      getAccountInfoByIdentifiers =
        (\<lambda>ids. (Inr \<lparr>response_users = Some accounts\<rparr>, [GetAccountsByIdentifiers ids])),
      deleteAccounts =
        (\<lambda>uids force. (Inr \<lparr>response_errors = deleteErrors\<rparr>, [DeleteAccounts uids force])),
      handler_createSessionCookie =
        (\<lambda>idToken expiresIn. (Inr (''cookie-'' @ idToken), [CreateSessionCookie idToken expiresIn])),
      createOAuthIdpConfig = (\<lambda>config. (Inr config, [CreateOidcConfig config])),
      createInboundSamlConfig = (\<lambda>config. (Inr config, [CreateSamlConfig config])),
      updateOAuthIdpConfig = (\<lambda>pid config. (Inr config, [UpdateOidcConfig pid config])),
      updateInboundSamlConfig = (\<lambda>pid config. (Inr config, [UpdateSamlConfig pid config]))\<rparr>"

definition example_accounts :: "js_value list" where
  "example_accounts =
     [JsObject [(''localId'', JsString ''alice''),
                (''email'', JsString ''alice@example.com''),
                (''validSince'', JsString ''Thu, 01 Jan 1970 00:16:40 GMT'')],
      JsObject [(''localId'', JsString ''bob''),
                (''phoneNumber'', JsString ''+15551234''),
                (''providerUserInfo'',
                 JsArray [JsObject [(''providerId'', JsString ''google.com''),
                                    (''rawId'', JsString ''g-1'')],
                          JsObject [(''providerId'', JsString ''google.com''),
                                    (''rawId'', JsString ''g-2'')]])]]"

definition example_auth ::
  "js_value list \<Rightarrow> batch_delete_error_info list option \<Rightarrow> base_auth" where
  "example_auth accounts deleteErrors =
     \<lparr>authRequestHandler = example_handler accounts deleteErrors,
      idTokenVerifier = example_verifier,
      sessionCookieVerifier = example_verifier\<rparr>"

definition example_tenant_auth :: tenant_aware_auth where
  "example_tenant_auth =
     \<lparr>authRequestHandler = example_handler example_accounts None,
      idTokenVerifier = example_verifier,
      sessionCookieVerifier = example_verifier,
      tenantId = ''T1''\<rparr>"

definition example_directory :: account_directory where
  "example_directory =
     \<lparr>directory_getAccountsByIdentifiers = (\<lambda>ids. Inr \<lparr>response_users = Some example_accounts\<rparr>),
      directory_deleteAccounts = (\<lambda>uids force. Inr \<lparr>response_errors = None\<rparr>)\<rparr>"

definition example_delete_errors :: "batch_delete_error_info list" where
  "example_delete_errors =
     [\<lparr>info_index = Some 1, info_localId = Some ''u1'',
       info_message = Some ''NOT_DISABLED : Disable the account before batch deletion.''\<rparr>,
      \<lparr>info_index = Some 3, info_localId = Some ''u3'', info_message = Some ''boom''\<rparr>]"

definition example_corrupt_errors :: "batch_delete_error_info list" where
  "example_corrupt_errors =
     [\<lparr>info_index = Some 0, info_localId = Some ''u0'', info_message = Some ''boom''\<rparr>,
      \<lparr>info_index = None, info_localId = None, info_message = None\<rparr>]"

definition example_alice :: user_record where
  "example_alice =
     \<lparr>uid = ''alice'', email = Some ''alice@example.com'', phoneNumber = None,
      providerData = [], tokensValidAfterTime = Some ''Thu, 01 Jan 1970 00:16:40 GMT''\<rparr>"

definition example_bob :: user_record where
  "example_bob =
     \<lparr>uid = ''bob'', email = None, phoneNumber = Some ''+15551234'',
      providerData = [\<lparr>providerId = ''google.com'', userInfo_uid = ''g-1''\<rparr>,
                      \<lparr>providerId = ''google.com'', userInfo_uid = ''g-2''\<rparr>],
      tokensValidAfterTime = None\<rparr>"

definition example_identifiers :: "user_identifier list" where
  "example_identifiers =
     [UidIdentifier ''alice'', EmailIdentifier ''b@x.com'', PhoneIdentifier ''+15551234'',
      ProviderIdentifier ''google.com'' ''g-1'', ProviderIdentifier ''google.com'' ''g-2'']"



definition example_spec_auth :: base_auth where
  "example_spec_auth =
     \<lparr>authRequestHandler =
        (example_handler example_accounts None)
          \<lparr>getAccountInfoByIdentifiers := spec_getAccountInfoByIdentifiers example_directory,
           deleteAccounts := spec_deleteAccounts example_directory\<rparr>,
      idTokenVerifier = example_verifier,
      sessionCookieVerifier = example_verifier\<rparr>"

section \<open>Token verification\<close>




text \<open>
  Claim C6. With \<open>checkRevoked = false\<close>, \<open>verifyIdToken\<close> and \<open>verifySessionCookie\<close>
  issue no request to the account directory and settle exactly as the local decode of the
  token does: the decoded claims unchanged when it succeeds, its error when it fails.
\<close>

theorem C6_no_revocation_check:
  "verifyIdToken c a idToken False = (idTokenVerifier a idToken, []) \<and>
   verifySessionCookie c a sessionCookie False = (sessionCookieVerifier a sessionCookie, [])"
proof
  show "verifyIdToken c a idToken False = (idTokenVerifier a idToken, [])"
    by (cases "idTokenVerifier a idToken")
       (simp_all add: verifyIdToken_def promise_then_def settle_def resolve_def)
  show "verifySessionCookie c a sessionCookie False = (sessionCookieVerifier a sessionCookie, [])"
    by (cases "sessionCookieVerifier a sessionCookie")
       (simp_all add: verifySessionCookie_def promise_then_def settle_def resolve_def)
qed





section \<open>Tenant isolation\<close>

text \<open>
  Claim C1. On a tenant-bound instance with tenant id \<open>T\<close>, \<open>verifyIdToken\<close> and
  \<open>verifySessionCookie\<close> resolve only with a decoded token whose \<open>firebase.tenant\<close> is
  \<open>T\<close>; whenever the underlying verification succeeds with a token whose
  \<open>firebase.tenant\<close> is another tenant or absent, the call fails with
  \<open>MISMATCHING_TENANT_ID\<close>.
\<close>

theorem C1_tenant_isolation:
  "(tenantAware_verifyIdToken c a idToken checkRevoked = (Inr d, t)
      \<longrightarrow> tenant (firebase d) = Some (tenantId a))
   \<and> (verifyIdToken c a idToken checkRevoked = (Inr d, t) \<and> tenant (firebase d) \<noteq> Some (tenantId a)
      \<longrightarrow> tenantAware_verifyIdToken c a idToken checkRevoked
            = (Inl (FirebaseAuthError MISMATCHING_TENANT_ID None), t))
   \<and> (tenantAware_verifySessionCookie c a sessionCookie checkRevoked = (Inr d, t)
      \<longrightarrow> tenant (firebase d) = Some (tenantId a))
   \<and> (verifySessionCookie c a sessionCookie checkRevoked = (Inr d, t)
        \<and> tenant (firebase d) \<noteq> Some (tenantId a)
      \<longrightarrow> tenantAware_verifySessionCookie c a sessionCookie checkRevoked
            = (Inl (FirebaseAuthError MISMATCHING_TENANT_ID None), t))"
proof (intro conjI impI)
  assume "tenantAware_verifyIdToken c a idToken checkRevoked = (Inr d, t)"
  then show "tenant (firebase d) = Some (tenantId a)"
    by (cases "verifyIdToken c a idToken checkRevoked")
       (auto simp: tenantAware_verifyIdToken_def promise_then_def reject_def resolve_def
             split: sum.splits if_splits)
next
  assume "verifyIdToken c a idToken checkRevoked = (Inr d, t) \<and> tenant (firebase d) \<noteq> Some (tenantId a)"
  then show "tenantAware_verifyIdToken c a idToken checkRevoked
            = (Inl (FirebaseAuthError MISMATCHING_TENANT_ID None), t)"
    by (simp add: tenantAware_verifyIdToken_def promise_then_def reject_def)
next
  assume "tenantAware_verifySessionCookie c a sessionCookie checkRevoked = (Inr d, t)"
  then show "tenant (firebase d) = Some (tenantId a)"
    by (cases "verifySessionCookie c a sessionCookie checkRevoked")
       (auto simp: tenantAware_verifySessionCookie_def promise_then_def reject_def resolve_def
             split: sum.splits if_splits)
next
  assume "verifySessionCookie c a sessionCookie checkRevoked = (Inr d, t)
        \<and> tenant (firebase d) \<noteq> Some (tenantId a)"
  then show "tenantAware_verifySessionCookie c a sessionCookie checkRevoked
            = (Inl (FirebaseAuthError MISMATCHING_TENANT_ID None), t)"
    by (simp add: tenantAware_verifySessionCookie_def promise_then_def reject_def)
qed

theorem C1_tenant_isolation_witness:
  "tenantAware_verifyIdToken example_collaborators example_tenant_auth ''bob-T1'' False
     = (Inr (example_token ''bob'' (Some ''T1'')), [])
   \<and> tenant (firebase (example_token ''bob'' (Some ''T1''))) = Some (tenantId example_tenant_auth)
   \<and> verifyIdToken example_collaborators example_tenant_auth ''alice-T2'' False
       = (Inr (example_token ''alice'' (Some ''T2'')), [])
   \<and> tenant (firebase (example_token ''alice'' (Some ''T2''))) \<noteq> Some (tenantId example_tenant_auth)
   \<and> tenantAware_verifyIdToken example_collaborators example_tenant_auth ''alice-T2'' False
       = (Inl (FirebaseAuthError MISMATCHING_TENANT_ID None), [])
   \<and> tenantAware_verifySessionCookie example_collaborators example_tenant_auth ''bob-T1'' False
       = (Inr (example_token ''bob'' (Some ''T1'')), [])
   \<and> verifySessionCookie example_collaborators example_tenant_auth ''alice'' False
       = (Inr (example_token ''alice'' None), [])
   \<and> tenant (firebase (example_token ''alice'' None)) \<noteq> Some (tenantId example_tenant_auth)
   \<and> tenantAware_verifySessionCookie example_collaborators example_tenant_auth ''alice'' False
       = (Inl (FirebaseAuthError MISMATCHING_TENANT_ID None), [])"
proof -
  have own_id:
    "tenantAware_verifyIdToken example_collaborators example_tenant_auth ''bob-T1'' False
       = (Inr (example_token ''bob'' (Some ''T1'')), [])"
    by (simp add: tenantAware_verifyIdToken_def verifyIdToken_def promise_then_def settle_def
        resolve_def example_tenant_auth_def example_verifier_def example_token_def)
  have own_cookie:
    "tenantAware_verifySessionCookie example_collaborators example_tenant_auth ''bob-T1'' False
       = (Inr (example_token ''bob'' (Some ''T1'')), [])"
    by (simp add: tenantAware_verifySessionCookie_def verifySessionCookie_def promise_then_def
        settle_def resolve_def example_tenant_auth_def example_verifier_def example_token_def)
  have other_id:
    "verifyIdToken example_collaborators example_tenant_auth ''alice-T2'' False
       = (Inr (example_token ''alice'' (Some ''T2'')), [])
     \<and> tenant (firebase (example_token ''alice'' (Some ''T2''))) \<noteq> Some (tenantId example_tenant_auth)"
    by (simp add: verifyIdToken_def promise_then_def settle_def
        resolve_def example_tenant_auth_def example_verifier_def example_token_def)
  have other_cookie:
    "verifySessionCookie example_collaborators example_tenant_auth ''alice'' False
       = (Inr (example_token ''alice'' None), [])
     \<and> tenant (firebase (example_token ''alice'' None)) \<noteq> Some (tenantId example_tenant_auth)"
    by (simp add: verifySessionCookie_def promise_then_def settle_def
        resolve_def example_tenant_auth_def example_verifier_def example_token_def)
  note bob = C1_tenant_isolation [of example_collaborators example_tenant_auth "''bob-T1''" False
      "example_token ''bob'' (Some ''T1'')" "[]" "''bob-T1''"]
  note alice = C1_tenant_isolation [of example_collaborators example_tenant_auth "''alice-T2''" False
      "example_token ''alice'' (Some ''T2'')" "[]" "''alice-T2''"]
  note anon = C1_tenant_isolation [of example_collaborators example_tenant_auth "''alice''" False
      "example_token ''alice'' None" "[]" "''alice''"]
  from own_id bob have 1: "tenant (firebase (example_token ''bob'' (Some ''T1''))) = Some (tenantId example_tenant_auth)"
    by blast
  from other_id alice have 2: "tenantAware_verifyIdToken example_collaborators example_tenant_auth ''alice-T2'' False
       = (Inl (FirebaseAuthError MISMATCHING_TENANT_ID None), [])"
    by blast
  from other_cookie anon have 3: "tenantAware_verifySessionCookie example_collaborators example_tenant_auth ''alice'' False
       = (Inl (FirebaseAuthError MISMATCHING_TENANT_ID None), [])"
    by blast
  from own_id own_cookie other_id other_cookie 1 2 3 show ?thesis by blast
qed

lemma tenantAware_verifyIdToken_unchecked:
  "tenantAware_verifyIdToken c a idToken False =
     (case idTokenVerifier a idToken of
        Inl e \<Rightarrow> (Inl e, [])
      | Inr d \<Rightarrow>
          if tenant (firebase d) = Some (tenantId a) then (Inr d, [])
          else (Inl (FirebaseAuthError MISMATCHING_TENANT_ID None), []))"
  by (cases "idTokenVerifier a idToken")
     (simp_all add: tenantAware_verifyIdToken_def verifyIdToken_def promise_then_def settle_def
        resolve_def reject_def)

lemma createSessionCookie_valid:
  "isNonNullObject opts \<Longrightarrow> js_get opts ''expiresIn'' = JsNumber n \<Longrightarrow>
   createSessionCookie a idToken opts = handler_createSessionCookie (authRequestHandler a) idToken n"
  by (simp add: createSessionCookie_def)

lemma tenantAware_createSessionCookie_nonempty:
  assumes nonempty: "idToken \<noteq> []"
  shows "(\<not> isNonNullObject opts \<or> \<not> isNumber (js_get opts ''expiresIn'') \<longrightarrow>
            tenantAware_createSessionCookie c a idToken opts
              = (Inl (FirebaseAuthError INVALID_SESSION_COOKIE_DURATION None), []))
       \<and> (isNonNullObject opts \<and> js_get opts ''expiresIn'' = JsNumber n \<longrightarrow>
            (tenantAware_verifyIdToken c a idToken False = (Inl e, t) \<longrightarrow>
               t = [] \<and> tenantAware_createSessionCookie c a idToken opts = (Inl e, []))
          \<and> (idTokenVerifier a idToken = Inr d \<and> tenant (firebase d) \<noteq> Some (tenantId a) \<longrightarrow>
               tenantAware_createSessionCookie c a idToken opts
                 = (Inl (FirebaseAuthError MISMATCHING_TENANT_ID None), []))
          \<and> (tenantAware_verifyIdToken c a idToken False = (Inr d, t) \<longrightarrow>
               t = [] \<and> tenantAware_createSessionCookie c a idToken opts
                 = handler_createSessionCookie (authRequestHandler a) idToken n))"
proof (intro conjI impI)
  assume "\<not> isNonNullObject opts \<or> \<not> isNumber (js_get opts ''expiresIn'')"
  then show "tenantAware_createSessionCookie c a idToken opts
              = (Inl (FirebaseAuthError INVALID_SESSION_COOKIE_DURATION None), [])"
    using nonempty by (auto simp: tenantAware_createSessionCookie_def reject_def)
next
  assume valid: "isNonNullObject opts \<and> js_get opts ''expiresIn'' = JsNumber n"
  then have run: "tenantAware_createSessionCookie c a idToken opts =
      promise_then (tenantAware_verifyIdToken c a idToken False)
        (\<lambda>decodedClaims. handler_createSessionCookie (authRequestHandler a) idToken n)"
    using nonempty
    by (simp add: tenantAware_createSessionCookie_def createSessionCookie_valid)
  {
    assume failed: "tenantAware_verifyIdToken c a idToken False = (Inl e, t)"
    then show "t = []"
      by (simp add: tenantAware_verifyIdToken_unchecked split: sum.splits if_splits)
    with failed show "tenantAware_createSessionCookie c a idToken opts = (Inl e, [])"
      by (simp add: run promise_then_def)
  next
    assume "idTokenVerifier a idToken = Inr d \<and> tenant (firebase d) \<noteq> Some (tenantId a)"
    then show "tenantAware_createSessionCookie c a idToken opts
                 = (Inl (FirebaseAuthError MISMATCHING_TENANT_ID None), [])"
      by (simp add: run tenantAware_verifyIdToken_unchecked promise_then_def)
  next
    assume ok: "tenantAware_verifyIdToken c a idToken False = (Inr d, t)"
    then show "t = []"
      by (simp add: tenantAware_verifyIdToken_unchecked split: sum.splits if_splits)
    with ok show "tenantAware_createSessionCookie c a idToken opts
                 = handler_createSessionCookie (authRequestHandler a) idToken n"
      by (simp add: run promise_then_def split: prod.splits)
  }
qed

text \<open>
  Claim C3, as amended. On a tenant-bound instance, \<open>createSessionCookie\<close> with an empty
  \<open>idToken\<close> fails with \<open>INVALID_ID_TOKEN\<close> and no directory request, whatever the
  options are. With a non-empty \<open>idToken\<close>: when \<open>sessionCookieOptions\<close> is not a non-null
  object or its \<open>expiresIn\<close> is absent or not a number, the call fails with
  \<open>INVALID_SESSION_COOKIE_DURATION\<close> and no directory request; otherwise the token goes
  through the tenant-checked \<open>verifyIdToken\<close> (without revocation check, so without
  directory request), a failure of which is the failure of the call
  (\<open>MISMATCHING_TENANT_ID\<close> for a token of another tenant), and only when it succeeds is
  the request handler asked to mint the cookie.
\<close>

theorem C3_tenant_createSessionCookie:
  "(idToken = [] \<longrightarrow>
      tenantAware_createSessionCookie c a idToken opts
        = (Inl (FirebaseAuthError INVALID_ID_TOKEN None), []))
   \<and> (idToken \<noteq> [] \<longrightarrow>
      (\<not> isNonNullObject opts \<or> \<not> isNumber (js_get opts ''expiresIn'') \<longrightarrow>
              tenantAware_createSessionCookie c a idToken opts
                = (Inl (FirebaseAuthError INVALID_SESSION_COOKIE_DURATION None), []))
         \<and> (isNonNullObject opts \<and> js_get opts ''expiresIn'' = JsNumber n \<longrightarrow>
              (tenantAware_verifyIdToken c a idToken False = (Inl e, t) \<longrightarrow>
                 t = [] \<and> tenantAware_createSessionCookie c a idToken opts = (Inl e, []))
            \<and> (idTokenVerifier a idToken = Inr d \<and> tenant (firebase d) \<noteq> Some (tenantId a) \<longrightarrow>
                 tenantAware_createSessionCookie c a idToken opts
                   = (Inl (FirebaseAuthError MISMATCHING_TENANT_ID None), []))
            \<and> (tenantAware_verifyIdToken c a idToken False = (Inr d, t) \<longrightarrow>
                 t = [] \<and> tenantAware_createSessionCookie c a idToken opts
                   = handler_createSessionCookie (authRequestHandler a) idToken n)))"
proof (rule conjI; rule impI)
  assume "idToken = []"
  then show "tenantAware_createSessionCookie c a idToken opts
        = (Inl (FirebaseAuthError INVALID_ID_TOKEN None), [])"
    by (simp add: tenantAware_createSessionCookie_def reject_def)
next
  assume "idToken \<noteq> []"
  then show "(\<not> isNonNullObject opts \<or> \<not> isNumber (js_get opts ''expiresIn'') \<longrightarrow>
            tenantAware_createSessionCookie c a idToken opts
              = (Inl (FirebaseAuthError INVALID_SESSION_COOKIE_DURATION None), []))
       \<and> (isNonNullObject opts \<and> js_get opts ''expiresIn'' = JsNumber n \<longrightarrow>
            (tenantAware_verifyIdToken c a idToken False = (Inl e, t) \<longrightarrow>
               t = [] \<and> tenantAware_createSessionCookie c a idToken opts = (Inl e, []))
          \<and> (idTokenVerifier a idToken = Inr d \<and> tenant (firebase d) \<noteq> Some (tenantId a) \<longrightarrow>
               tenantAware_createSessionCookie c a idToken opts
                 = (Inl (FirebaseAuthError MISMATCHING_TENANT_ID None), []))
          \<and> (tenantAware_verifyIdToken c a idToken False = (Inr d, t) \<longrightarrow>
               t = [] \<and> tenantAware_createSessionCookie c a idToken opts
                 = handler_createSessionCookie (authRequestHandler a) idToken n))"
    by (rule tenantAware_createSessionCookie_nonempty)
qed

theorem C3_tenant_createSessionCookie_witness:
  "tenantAware_createSessionCookie example_collaborators example_tenant_auth []
       (JsObject [(''expiresIn'', JsNumber 3600000)])
     = (Inl (FirebaseAuthError INVALID_ID_TOKEN None), [])
   \<and> tenantAware_createSessionCookie example_collaborators example_tenant_auth [] JsUndefined
     = (Inl (FirebaseAuthError INVALID_ID_TOKEN None), [])
   \<and> ''bob-T1'' \<noteq> [] \<and> ''alice-T2'' \<noteq> []
   \<and> \<not> isNumber (js_get (JsObject []) ''expiresIn'')
   \<and> tenantAware_createSessionCookie example_collaborators example_tenant_auth ''bob-T1''
         (JsObject [])
       = (Inl (FirebaseAuthError INVALID_SESSION_COOKIE_DURATION None), [])
   \<and> isNonNullObject (JsObject [(''expiresIn'', JsNumber 3600000)])
   \<and> js_get (JsObject [(''expiresIn'', JsNumber 3600000)]) ''expiresIn'' = JsNumber 3600000
   \<and> idTokenVerifier example_tenant_auth ''alice-T2'' = Inr (example_token ''alice'' (Some ''T2''))
   \<and> tenant (firebase (example_token ''alice'' (Some ''T2''))) \<noteq> Some (tenantId example_tenant_auth)
   \<and> tenantAware_verifyIdToken example_collaborators example_tenant_auth ''alice-T2'' False
       = (Inl (FirebaseAuthError MISMATCHING_TENANT_ID None), [])
   \<and> tenantAware_createSessionCookie example_collaborators example_tenant_auth ''alice-T2''
         (JsObject [(''expiresIn'', JsNumber 3600000)])
       = (Inl (FirebaseAuthError MISMATCHING_TENANT_ID None), [])
   \<and> tenantAware_verifyIdToken example_collaborators example_tenant_auth ''bob-T1'' False
       = (Inr (example_token ''bob'' (Some ''T1'')), [])
   \<and> tenantAware_createSessionCookie example_collaborators example_tenant_auth ''bob-T1''
         (JsObject [(''expiresIn'', JsNumber 3600000)])
       = (Inr ''cookie-bob-T1'', [CreateSessionCookie ''bob-T1'' 3600000])"
proof -
  have ne: "''bob-T1'' \<noteq> []" "''alice-T2'' \<noteq> []" by simp_all
  have absent: "\<not> isNumber (js_get (JsObject []) ''expiresIn'')" by simp
  have valid: "isNonNullObject (JsObject [(''expiresIn'', JsNumber 3600000)])
       \<and> js_get (JsObject [(''expiresIn'', JsNumber 3600000)]) ''expiresIn'' = JsNumber 3600000"
    by (simp add: isNonNullObject_def)
  have other: "idTokenVerifier example_tenant_auth ''alice-T2'' = Inr (example_token ''alice'' (Some ''T2''))
       \<and> tenant (firebase (example_token ''alice'' (Some ''T2''))) \<noteq> Some (tenantId example_tenant_auth)"
    by (simp add: example_tenant_auth_def example_verifier_def example_token_def)
  have other_verify:
    "tenantAware_verifyIdToken example_collaborators example_tenant_auth ''alice-T2'' False
       = (Inl (FirebaseAuthError MISMATCHING_TENANT_ID None), [])"
    by (simp add: tenantAware_verifyIdToken_def verifyIdToken_def promise_then_def settle_def
        resolve_def reject_def example_tenant_auth_def example_verifier_def example_token_def)
  have own_verify:
    "tenantAware_verifyIdToken example_collaborators example_tenant_auth ''bob-T1'' False
       = (Inr (example_token ''bob'' (Some ''T1'')), [])"
    by (simp add: tenantAware_verifyIdToken_def verifyIdToken_def promise_then_def settle_def
        resolve_def reject_def example_tenant_auth_def example_verifier_def example_token_def)
  have mint: "handler_createSessionCookie (authRequestHandler example_tenant_auth) ''bob-T1'' 3600000
       = (Inr ''cookie-bob-T1'', [CreateSessionCookie ''bob-T1'' 3600000])"
    by (simp add: example_tenant_auth_def example_handler_def)
  from C3_tenant_createSessionCookie [where idToken = "[]"
      and opts = "JsObject [(''expiresIn'', JsNumber 3600000)]"
      and c = example_collaborators and a = example_tenant_auth]
  have e1: "tenantAware_createSessionCookie example_collaborators example_tenant_auth []
       (JsObject [(''expiresIn'', JsNumber 3600000)])
     = (Inl (FirebaseAuthError INVALID_ID_TOKEN None), [])"
    by blast
  from C3_tenant_createSessionCookie [where idToken = "[]" and opts = JsUndefined
      and c = example_collaborators and a = example_tenant_auth]
  have e2: "tenantAware_createSessionCookie example_collaborators example_tenant_auth []
       JsUndefined
     = (Inl (FirebaseAuthError INVALID_ID_TOKEN None), [])"
    by blast
  from absent ne(1)
    C3_tenant_createSessionCookie [where idToken = "''bob-T1''" and opts = "JsObject []"
      and c = example_collaborators and a = example_tenant_auth]
  have 1: "tenantAware_createSessionCookie example_collaborators example_tenant_auth ''bob-T1''
         (JsObject [])
       = (Inl (FirebaseAuthError INVALID_SESSION_COOKIE_DURATION None), [])"
    by blast
  from valid other ne(2)
    C3_tenant_createSessionCookie [where idToken = "''alice-T2''" and opts = "JsObject [(''expiresIn'', JsNumber 3600000)]" and n = 3600000
      and c = example_collaborators and a = example_tenant_auth
      and d = "example_token ''alice'' (Some ''T2'')"]
  have 2: "tenantAware_createSessionCookie example_collaborators example_tenant_auth ''alice-T2''
         (JsObject [(''expiresIn'', JsNumber 3600000)])
       = (Inl (FirebaseAuthError MISMATCHING_TENANT_ID None), [])"
    by blast
  from valid own_verify ne(1)
    C3_tenant_createSessionCookie [where idToken = "''bob-T1''" and opts = "JsObject [(''expiresIn'', JsNumber 3600000)]" and n = 3600000
      and c = example_collaborators and a = example_tenant_auth
      and d = "example_token ''bob'' (Some ''T1'')" and t = "[]"]
  have "tenantAware_createSessionCookie example_collaborators example_tenant_auth ''bob-T1''
         (JsObject [(''expiresIn'', JsNumber 3600000)])
       = handler_createSessionCookie (authRequestHandler example_tenant_auth) ''bob-T1'' 3600000"
    by blast
  with mint have 3: "tenantAware_createSessionCookie example_collaborators example_tenant_auth
         ''bob-T1'' (JsObject [(''expiresIn'', JsNumber 3600000)])
       = (Inr ''cookie-bob-T1'', [CreateSessionCookie ''bob-T1'' 3600000])"
    by simp
  from e1 e2 ne absent valid other other_verify own_verify 1 2 3 show ?thesis by blast
qed

text \<open>
  The claim as written also covers an empty \<open>idToken\<close>; there the first guard answers
  \<open>INVALID_ID_TOKEN\<close> although \<open>expiresIn\<close> is absent.
\<close>

theorem C3_empty_idToken_counterexample:
  "\<not> isNumber (js_get (JsObject []) ''expiresIn'')
   \<and> tenantAware_createSessionCookie example_collaborators example_tenant_auth [] (JsObject [])
       = (Inl (FirebaseAuthError INVALID_ID_TOKEN None), [])
   \<and> tenantAware_createSessionCookie example_collaborators example_tenant_auth [] (JsObject [])
       \<noteq> (Inl (FirebaseAuthError INVALID_SESSION_COOKIE_DURATION None), [])"
  by (simp add: tenantAware_createSessionCookie_def reject_def)

section \<open>Provider configurations\<close>

text \<open>
  Claim C10. \<open>createProviderConfig\<close> with a configuration that is not a non-null object,
  and \<open>updateProviderConfig\<close> with such an updated configuration and any provider id,
  fail with \<open>INVALID_CONFIG\<close> and issue no directory request: the test of the
  configuration comes before the classification of the provider id, so the outcome is
  never \<open>INVALID_PROVIDER_ID\<close>.
\<close>

theorem C10_null_config:
  assumes "\<not> isNonNullObject config"
  shows "createProviderConfig c a config =
           (Inl (FirebaseAuthError INVALID_CONFIG
                   (Some (''Request is missing '' @ dquote @ ''AuthProviderConfig'' @ dquote @
                          '' configuration.''))), [])
       \<and> updateProviderConfig c a pid config =
           (Inl (FirebaseAuthError INVALID_CONFIG
                   (Some (''Request is missing '' @ dquote @ ''UpdateAuthProviderRequest'' @ dquote @
                          '' configuration.''))), [])"
  using assms by (simp add: createProviderConfig_def updateProviderConfig_def reject_def)

theorem C10_null_config_witness:
  "\<not> isNonNullObject JsNull
   \<and> \<not> OIDCConfig_isProviderId (JsString ''google.com'')
   \<and> \<not> SAMLConfig_isProviderId (JsString ''google.com'')
   \<and> fst (createProviderConfig example_collaborators example_tenant_auth JsNull)
       = Inl (FirebaseAuthError INVALID_CONFIG
                (Some (''Request is missing '' @ dquote @ ''AuthProviderConfig'' @ dquote @
                       '' configuration.'')))
   \<and> updateProviderConfig example_collaborators example_tenant_auth ''google.com'' JsNull
       = (Inl (FirebaseAuthError INVALID_CONFIG
                (Some (''Request is missing '' @ dquote @ ''UpdateAuthProviderRequest'' @ dquote @
                       '' configuration.''))), [])"
proof -
  have n: "\<not> isNonNullObject JsNull" by (simp add: isNonNullObject_def)
  have p: "\<not> OIDCConfig_isProviderId (JsString ''google.com'')
           \<and> \<not> SAMLConfig_isProviderId (JsString ''google.com'')"
    by simp
  from n p C10_null_config [OF n, of example_collaborators example_tenant_auth "''google.com''"]
  show ?thesis by simp
qed

section \<open>Batch limits\<close>

text \<open>
  Claim C4. With the request handler's batch limits as the spec gives them, \<open>getUsers\<close>
  with more than 100 identifiers and \<open>deleteUsers\<close> with more than 1000 uids fail with
  \<open>INVALID_ARGUMENT\<close> and issue no directory request.
\<close>

theorem C4_batch_limits:
  assumes "getAccountInfoByIdentifiers (authRequestHandler a) = spec_getAccountInfoByIdentifiers dir"
    and "deleteAccounts (authRequestHandler a) = spec_deleteAccounts dir"
  shows "(100 < length ids \<longrightarrow>
            getUsers c a (ArrayOf ids) = (Inl (FirebaseAuthError INVALID_ARGUMENT None), []))
       \<and> (1000 < length uids \<longrightarrow>
            deleteUsers a (ArrayOf uids) = (Inl (FirebaseAuthError INVALID_ARGUMENT None), []))"
  using assms
  by (simp add: getUsers_def deleteUsers_def spec_getAccountInfoByIdentifiers_def
      spec_deleteAccounts_def promise_then_def reject_def)

theorem C4_batch_limits_witness:
  "getAccountInfoByIdentifiers (authRequestHandler example_spec_auth)
     = spec_getAccountInfoByIdentifiers example_directory
   \<and> deleteAccounts (authRequestHandler example_spec_auth) = spec_deleteAccounts example_directory
   \<and> 100 < length (replicate 101 (UidIdentifier ''u''))
   \<and> getUsers example_collaborators example_spec_auth (ArrayOf (replicate 101 (UidIdentifier ''u'')))
       = (Inl (FirebaseAuthError INVALID_ARGUMENT None), [])
   \<and> 1000 < length (replicate 1001 ''u'')
   \<and> deleteUsers example_spec_auth (ArrayOf (replicate 1001 ''u''))
       = (Inl (FirebaseAuthError INVALID_ARGUMENT None), [])"
proof -
  have h: "getAccountInfoByIdentifiers (authRequestHandler example_spec_auth)
             = spec_getAccountInfoByIdentifiers example_directory"
    "deleteAccounts (authRequestHandler example_spec_auth) = spec_deleteAccounts example_directory"
    by (simp_all add: example_spec_auth_def)
  have l: "100 < length (replicate 101 (UidIdentifier ''u''))" "1000 < length (replicate 1001 ''u'')"
    by simp_all
  from h l C4_batch_limits [OF h, of "replicate 101 (UidIdentifier ''u'')" example_collaborators
      "replicate 1001 ''u''"]
  show ?thesis by blast
qed

section \<open>Batch delete\<close>

lemma map_throwing_Inr_iff: "map_throwing f xs = Inr ys \<longleftrightarrow> map f xs = map Inr ys"
proof (induction xs arbitrary: ys)
  case Nil
  then show ?case by auto
next
  case (Cons x xs)
  show ?case
  proof (cases "f x")
    case (Inl e)
    then show ?thesis by (cases ys) auto
  next
    case fx: (Inr y)
    show ?thesis
    proof (cases "map_throwing f xs")
      case (Inl e)
      have "map f xs \<noteq> map Inr zs" for zs
        using Cons.IH [of zs] Inl by simp
      with fx Inl show ?thesis by (cases ys) auto
    next
      case (Inr zs)
      with Cons.IH [of zs] have "map f xs = map Inr zs" by simp
      with fx Inr show ?thesis by (cases ys) auto
    qed
  qed
qed

lemma map_throwing_total:
  "(\<And>x. x \<in> set xs \<Longrightarrow> f x = Inr (g x)) \<Longrightarrow> map_throwing f xs = Inr (map g xs)"
  by (induction xs) auto

lemma map_throwing_same_error:
  assumes "x \<in> set xs" and "f x = Inl e"
    and same: "\<And>y e'. y \<in> set xs \<Longrightarrow> f y = Inl e' \<Longrightarrow> e' = e"
  shows "map_throwing f xs = Inl e"
  using assms
proof (induction xs)
  case Nil
  then show ?case by simp
next
  case (Cons z zs)
  show ?case
  proof (cases "f z")
    case (Inl e')
    have "z \<in> set (z # zs)" by simp
    from Cons.prems(3) [OF this Inl] have "e' = e" .
    with Inl show ?thesis by simp
  next
    case (Inr y)
    with Cons.prems(1,2) have mem: "x \<in> set zs" by auto
    have rest: "e' = e" if "w \<in> set zs" and "f w = Inl e'" for w e'
    proof -
      from that(1) have "w \<in> set (z # zs)" by simp
      from Cons.prems(3) [OF this that(2)] show ?thesis .
    qed
    from Cons.IH [OF mem Cons.prems(2) rest] have "map_throwing f zs = Inl e" .
    with Inr show ?thesis by simp
  qed
qed

lemma deleteUsers_responded:
  assumes "deleteAccounts (authRequestHandler a) uids True = (Inr resp, t)"
  shows "deleteUsers a (ArrayOf uids) =
     (case response_errors resp of
        None \<Rightarrow> (Inr \<lparr>failureCount = 0, successCount = int (length uids), errors = []\<rparr>, t)
      | Some es \<Rightarrow>
          if es = [] then (Inr \<lparr>failureCount = 0, successCount = int (length uids), errors = []\<rparr>, t)
          else (case map_throwing deleteUsers_mapError es of
                  Inl e \<Rightarrow> (Inl e, t)
                | Inr mapped \<Rightarrow>
                    (Inr \<lparr>failureCount = int (length es),
                          successCount = int (length uids) - int (length es),
                          errors = mapped\<rparr>, t)))"
  using assms
  by (simp add: deleteUsers_def promise_then_def resolve_def reject_def Let_def
      split: option.splits sum.splits)

lemma deleteUsers_resolved_responded:
  assumes "deleteUsers a (ArrayOf uids) = (Inr r, t)"
  shows "\<exists>resp. deleteAccounts (authRequestHandler a) uids True = (Inr resp, t)"
proof (cases "deleteAccounts (authRequestHandler a) uids True")
  case (Pair out t')
  show ?thesis
  proof (cases out)
    case (Inl e)
    with Pair assms show ?thesis by (simp add: deleteUsers_def promise_then_def)
  next
    case (Inr resp)
    with Pair have h: "deleteAccounts (authRequestHandler a) uids True = (Inr resp, t')" by simp
    from deleteUsers_responded [OF h] assms have "t' = t"
      by (auto split: option.splits sum.splits if_splits)
    with h show ?thesis by blast
  qed
qed

lemma map_throwing_length: "map_throwing f xs = Inr ys \<Longrightarrow> length ys = length xs"
  by (metis length_map map_throwing_Inr_iff)

lemma example_deleteUsers_five:
  "deleteUsers (example_auth [] (Some example_delete_errors))
       (ArrayOf [''u0'', ''u1'', ''u2'', ''u3'', ''u4''])
     = (Inr \<lparr>failureCount = 2, successCount = 3,
             errors =
               [\<lparr>index = 1,
                 error = FirebaseAuthError USER_NOT_DISABLED
                   (Some ''NOT_DISABLED : Disable the account before batch deletion.'')\<rparr>,
                \<lparr>index = 3, error = FirebaseAuthError INTERNAL_ERROR (Some ''boom'')\<rparr>]\<rparr>,
        [DeleteAccounts [''u0'', ''u1'', ''u2'', ''u3'', ''u4''] True])"
  by (simp add: deleteUsers_def example_auth_def example_handler_def example_delete_errors_def
      promise_then_def resolve_def deleteUsers_mapError_def errMsgToError_def Let_def)

lemma deleteUsers_mapError_defined:
  "info_index info = Some i \<Longrightarrow>
   deleteUsers_mapError info =
     Inr \<lparr>index = i,
          error = FirebaseAuthError
            (if (\<exists>m. info_message info = Some m \<and> prefix ''NOT_DISABLED'' m)
             then USER_NOT_DISABLED else INTERNAL_ERROR)
            (info_message info)\<rparr>"
  by (cases "info_message info")
     (auto simp: deleteUsers_mapError_def errMsgToError_def)

lemma deleteUsers_mapError_undefined:
  "deleteUsers_mapError info = Inl e \<longleftrightarrow>
     info_index info = None \<and>
     e = FirebaseAuthError INTERNAL_ERROR (Some ''Corrupt BatchDeleteAccountsResponse detected'')"
  by (auto simp: deleteUsers_mapError_def split: option.splits)

text \<open>
  Claim C7, as amended. For every \<open>deleteUsers\<close> call that resolves,
  \<open>successCount + failureCount\<close> is the number of requested uids and \<open>failureCount\<close>
  is not negative; an absent or empty error list gives \<open>successCount = len(uids)\<close>,
  \<open>failureCount = 0\<close>, \<open>errors = []\<close>; a non-empty error list gives
  \<open>failureCount = len(errors)\<close>, \<open>successCount = len(uids) - len(errors)\<close> and one
  entry of \<open>errors\<close> per reported error. \<open>successCount\<close> is not negative exactly when
  the directory reports no more errors than uids were requested.
\<close>

theorem C7_deleteUsers_counts:
  assumes resolved: "deleteUsers a (ArrayOf uids) = (Inr r, t)"
  shows "successCount r + failureCount r = int (length uids)
       \<and> 0 \<le> failureCount r
       \<and> ((0 \<le> successCount r) = (failureCount r \<le> int (length uids)))
       \<and> (\<exists>resp. deleteAccounts (authRequestHandler a) uids True = (Inr resp, t)
            \<and> (response_errors resp = None \<or> response_errors resp = Some [] \<longrightarrow>
                 r = \<lparr>failureCount = 0, successCount = int (length uids), errors = []\<rparr>)
            \<and> (\<forall>es. response_errors resp = Some es \<and> es \<noteq> [] \<longrightarrow>
                 failureCount r = int (length es)
                 \<and> successCount r = int (length uids) - int (length es)
                 \<and> length (errors r) = length es))"
proof -
  from deleteUsers_resolved_responded [OF resolved]
  obtain resp where h: "deleteAccounts (authRequestHandler a) uids True = (Inr resp, t)" by blast
  note run = deleteUsers_responded [OF h]
  have empty: "r = \<lparr>failureCount = 0, successCount = int (length uids), errors = []\<rparr>"
    if "response_errors resp = None \<or> response_errors resp = Some []"
    using that resolved run by auto
  have nonempty: "failureCount r = int (length es)
                 \<and> successCount r = int (length uids) - int (length es)
                 \<and> length (errors r) = length es"
    if "response_errors resp = Some es \<and> es \<noteq> []" for es
    using that resolved run by (auto split: sum.splits dest: map_throwing_length)
  have sum: "successCount r + failureCount r = int (length uids) \<and> 0 \<le> failureCount r"
  proof (cases "response_errors resp")
    case None
    with empty show ?thesis by simp
  next
    case (Some es)
    show ?thesis
    proof (cases "es = []")
      case True
      with Some empty show ?thesis by simp
    next
      case False
      with Some nonempty [of es] show ?thesis by simp
    qed
  qed
  then have sign: "(0 \<le> successCount r) = (failureCount r \<le> int (length uids))" by linarith
  from sum sign h empty nonempty show ?thesis by blast
qed

theorem C7_deleteUsers_counts_witness:
  "deleteUsers (example_auth [] (Some example_delete_errors))
       (ArrayOf [''u0'', ''u1'', ''u2'', ''u3'', ''u4''])
     = (Inr \<lparr>failureCount = 2, successCount = 3,
             errors =
               [\<lparr>index = 1,
                 error = FirebaseAuthError USER_NOT_DISABLED
                   (Some ''NOT_DISABLED : Disable the account before batch deletion.'')\<rparr>,
                \<lparr>index = 3, error = FirebaseAuthError INTERNAL_ERROR (Some ''boom'')\<rparr>]\<rparr>,
        [DeleteAccounts [''u0'', ''u1'', ''u2'', ''u3'', ''u4''] True])
   \<and> (3::int) + 2 = int (length [''u0'', ''u1'', ''u2'', ''u3'', ''u4''])
   \<and> (\<exists>resp. deleteAccounts (authRequestHandler (example_auth [] (Some example_delete_errors)))
                 [''u0'', ''u1'', ''u2'', ''u3'', ''u4''] True
               = (Inr resp, [DeleteAccounts [''u0'', ''u1'', ''u2'', ''u3'', ''u4''] True])
             \<and> response_errors resp = Some example_delete_errors
             \<and> example_delete_errors \<noteq> [])"
proof -
  note run = example_deleteUsers_five
  from C7_deleteUsers_counts [OF run]
  have "(3::int) + 2 = int (length [''u0'', ''u1'', ''u2'', ''u3'', ''u4''])"
    by simp
  moreover have "\<exists>resp. deleteAccounts (authRequestHandler (example_auth [] (Some example_delete_errors)))
                 [''u0'', ''u1'', ''u2'', ''u3'', ''u4''] True
               = (Inr resp, [DeleteAccounts [''u0'', ''u1'', ''u2'', ''u3'', ''u4''] True])
             \<and> response_errors resp = Some example_delete_errors
             \<and> example_delete_errors \<noteq> []"
    by (simp add: example_auth_def example_handler_def example_delete_errors_def)
  ultimately show ?thesis using run by blast
qed

text \<open>
  The claim as written has both counts non-negative for every call that resolves. The code
  subtracts the number of reported errors without comparing it with the number of uids:
  two reported errors for one requested uid give \<open>successCount = -1\<close>.
\<close>

theorem C7_negative_successCount_counterexample:
  "deleteUsers (example_auth [] (Some example_delete_errors)) (ArrayOf [''u0''])
     = (Inr \<lparr>failureCount = 2, successCount = - 1,
             errors =
               [\<lparr>index = 1,
                 error = FirebaseAuthError USER_NOT_DISABLED
                   (Some ''NOT_DISABLED : Disable the account before batch deletion.'')\<rparr>,
                \<lparr>index = 3, error = FirebaseAuthError INTERNAL_ERROR (Some ''boom'')\<rparr>]\<rparr>,
        [DeleteAccounts [''u0''] True])"
  by (simp add: deleteUsers_def example_auth_def example_handler_def example_delete_errors_def
      promise_then_def resolve_def deleteUsers_mapError_def errMsgToError_def Let_def)

text \<open>
  Claim C8. When the directory answers a batch delete with a non-empty error list: an entry
  whose index is undefined makes the whole call fail with \<open>INTERNAL_ERROR\<close>; when every
  entry has an index, the call resolves and each entry is mapped, in order, to its index
  and an error whose kind is \<open>USER_NOT_DISABLED\<close> when the entry's message starts with
  \<open>NOT_DISABLED\<close> and \<open>INTERNAL_ERROR\<close> otherwise, carrying the entry's message.
\<close>

theorem C8_deleteUsers_errors:
  assumes responded: "deleteAccounts (authRequestHandler a) uids True = (Inr resp, t)"
    and reported: "response_errors resp = Some es" "es \<noteq> []"
  shows "((\<exists>info \<in> set es. info_index info = None) \<longrightarrow>
            deleteUsers a (ArrayOf uids) =
              (Inl (FirebaseAuthError INTERNAL_ERROR
                      (Some ''Corrupt BatchDeleteAccountsResponse detected'')), t))
       \<and> ((\<forall>info \<in> set es. info_index info \<noteq> None) \<longrightarrow>
            (\<exists>r. deleteUsers a (ArrayOf uids) = (Inr r, t)
               \<and> errors r =
                   map (\<lambda>info.
                          \<lparr>index = the (info_index info),
                           error = FirebaseAuthError
                             (if (\<exists>m. info_message info = Some m \<and> prefix ''NOT_DISABLED'' m)
                              then USER_NOT_DISABLED else INTERNAL_ERROR)
                             (info_message info)\<rparr>) es))"
proof (intro conjI impI)
  note run = deleteUsers_responded [OF responded]
  {
    assume "\<exists>info \<in> set es. info_index info = None"
    then obtain info where mem: "info \<in> set es" and undef: "info_index info = None" by blast
    from undef have bad: "deleteUsers_mapError info =
        Inl (FirebaseAuthError INTERNAL_ERROR (Some ''Corrupt BatchDeleteAccountsResponse detected''))"
      by (simp add: deleteUsers_mapError_undefined)
    have "map_throwing deleteUsers_mapError es =
        Inl (FirebaseAuthError INTERNAL_ERROR (Some ''Corrupt BatchDeleteAccountsResponse detected''))"
      by (rule map_throwing_same_error [where f = deleteUsers_mapError and x = info, OF mem bad])
         (simp add: deleteUsers_mapError_undefined)
    with run reported show "deleteUsers a (ArrayOf uids) =
              (Inl (FirebaseAuthError INTERNAL_ERROR
                      (Some ''Corrupt BatchDeleteAccountsResponse detected'')), t)"
      by simp
  next
    assume defined: "\<forall>info \<in> set es. info_index info \<noteq> None"
    have "map_throwing deleteUsers_mapError es =
            Inr (map (\<lambda>info.
                          \<lparr>index = the (info_index info),
                           error = FirebaseAuthError
                             (if (\<exists>m. info_message info = Some m \<and> prefix ''NOT_DISABLED'' m)
                              then USER_NOT_DISABLED else INTERNAL_ERROR)
                             (info_message info)\<rparr>) es)"
    proof (rule map_throwing_total)
      fix info assume "info \<in> set es"
      with defined obtain i where "info_index info = Some i" by auto
      then show "deleteUsers_mapError info =
         Inr \<lparr>index = the (info_index info),
              error = FirebaseAuthError
                (if (\<exists>m. info_message info = Some m \<and> prefix ''NOT_DISABLED'' m)
                 then USER_NOT_DISABLED else INTERNAL_ERROR)
                (info_message info)\<rparr>"
        by (simp add: deleteUsers_mapError_defined)
    qed
    with run reported show "\<exists>r. deleteUsers a (ArrayOf uids) = (Inr r, t)
               \<and> errors r =
                   map (\<lambda>info.
                          \<lparr>index = the (info_index info),
                           error = FirebaseAuthError
                             (if (\<exists>m. info_message info = Some m \<and> prefix ''NOT_DISABLED'' m)
                              then USER_NOT_DISABLED else INTERNAL_ERROR)
                             (info_message info)\<rparr>) es"
      by simp
  }
qed

theorem C8_deleteUsers_errors_witness:
  "deleteAccounts (authRequestHandler (example_auth [] (Some example_corrupt_errors)))
       [''u0'', ''u1''] True
     = (Inr \<lparr>response_errors = Some example_corrupt_errors\<rparr>,
        [DeleteAccounts [''u0'', ''u1''] True])
   \<and> example_corrupt_errors \<noteq> []
   \<and> (\<exists>info \<in> set example_corrupt_errors. info_index info = None)
   \<and> deleteUsers (example_auth [] (Some example_corrupt_errors)) (ArrayOf [''u0'', ''u1''])
       = (Inl (FirebaseAuthError INTERNAL_ERROR
                 (Some ''Corrupt BatchDeleteAccountsResponse detected'')),
          [DeleteAccounts [''u0'', ''u1''] True])
   \<and> deleteAccounts (authRequestHandler (example_auth [] (Some example_delete_errors)))
       [''u0'', ''u1'', ''u2'', ''u3'', ''u4''] True
     = (Inr \<lparr>response_errors = Some example_delete_errors\<rparr>,
        [DeleteAccounts [''u0'', ''u1'', ''u2'', ''u3'', ''u4''] True])
   \<and> example_delete_errors \<noteq> []
   \<and> list_all (\<lambda>info. info_index info \<noteq> None) example_delete_errors
   \<and> (\<exists>r. deleteUsers (example_auth [] (Some example_delete_errors))
              (ArrayOf [''u0'', ''u1'', ''u2'', ''u3'', ''u4''])
            = (Inr r, [DeleteAccounts [''u0'', ''u1'', ''u2'', ''u3'', ''u4''] True])
          \<and> errors r =
              [\<lparr>index = 1,
                error = FirebaseAuthError USER_NOT_DISABLED
                  (Some ''NOT_DISABLED : Disable the account before batch deletion.'')\<rparr>,
               \<lparr>index = 3, error = FirebaseAuthError INTERNAL_ERROR (Some ''boom'')\<rparr>])"
proof -
  have corrupt:
    "deleteAccounts (authRequestHandler (example_auth [] (Some example_corrupt_errors)))
       [''u0'', ''u1''] True
     = (Inr \<lparr>response_errors = Some example_corrupt_errors\<rparr>,
        [DeleteAccounts [''u0'', ''u1''] True])"
    by (simp add: example_auth_def example_handler_def)
  have corrupt_errors:
    "response_errors \<lparr>response_errors = Some example_corrupt_errors\<rparr> = Some example_corrupt_errors"
    "example_corrupt_errors \<noteq> []"
    by (simp_all add: example_corrupt_errors_def)
  have missing: "\<exists>info \<in> set example_corrupt_errors. info_index info = None"
    by (simp add: example_corrupt_errors_def)
  have reported:
    "deleteAccounts (authRequestHandler (example_auth [] (Some example_delete_errors)))
       [''u0'', ''u1'', ''u2'', ''u3'', ''u4''] True
     = (Inr \<lparr>response_errors = Some example_delete_errors\<rparr>,
        [DeleteAccounts [''u0'', ''u1'', ''u2'', ''u3'', ''u4''] True])"
    by (simp add: example_auth_def example_handler_def)
  have reported_errors:
    "response_errors \<lparr>response_errors = Some example_delete_errors\<rparr> = Some example_delete_errors"
    "example_delete_errors \<noteq> []"
    by (simp_all add: example_delete_errors_def)
  have defined: "list_all (\<lambda>info. info_index info \<noteq> None) example_delete_errors"
    by (simp add: example_delete_errors_def)
  then have defined': "\<forall>info \<in> set example_delete_errors. info_index info \<noteq> None"
    by (simp add: list_all_iff)
  from missing C8_deleteUsers_errors [OF corrupt corrupt_errors]
  have 1: "deleteUsers (example_auth [] (Some example_corrupt_errors)) (ArrayOf [''u0'', ''u1''])
       = (Inl (FirebaseAuthError INTERNAL_ERROR
                 (Some ''Corrupt BatchDeleteAccountsResponse detected'')),
          [DeleteAccounts [''u0'', ''u1''] True])"
    by blast
  from defined' C8_deleteUsers_errors [OF reported reported_errors]
  obtain r where r: "deleteUsers (example_auth [] (Some example_delete_errors))
              (ArrayOf [''u0'', ''u1'', ''u2'', ''u3'', ''u4''])
            = (Inr r, [DeleteAccounts [''u0'', ''u1'', ''u2'', ''u3'', ''u4''] True])"
    and e: "errors r =
                   map (\<lambda>info.
                          \<lparr>index = the (info_index info),
                           error = FirebaseAuthError
                             (if (\<exists>m. info_message info = Some m \<and> prefix ''NOT_DISABLED'' m)
                              then USER_NOT_DISABLED else INTERNAL_ERROR)
                             (info_message info)\<rparr>) example_delete_errors"
    by blast
  from e have "errors r =
              [\<lparr>index = 1,
                error = FirebaseAuthError USER_NOT_DISABLED
                  (Some ''NOT_DISABLED : Disable the account before batch deletion.'')\<rparr>,
               \<lparr>index = 3, error = FirebaseAuthError INTERNAL_ERROR (Some ''boom'')\<rparr>]"
    by (simp add: example_delete_errors_def)
  with r have 2: "\<exists>r. deleteUsers (example_auth [] (Some example_delete_errors))
              (ArrayOf [''u0'', ''u1'', ''u2'', ''u3'', ''u4''])
            = (Inr r, [DeleteAccounts [''u0'', ''u1'', ''u2'', ''u3'', ''u4''] True])
          \<and> errors r =
              [\<lparr>index = 1,
                error = FirebaseAuthError USER_NOT_DISABLED
                  (Some ''NOT_DISABLED : Disable the account before batch deletion.'')\<rparr>,
               \<lparr>index = 3, error = FirebaseAuthError INTERNAL_ERROR (Some ''boom'')\<rparr>]"
    by blast
  from corrupt corrupt_errors(2) missing 1 reported reported_errors(2) defined 2
  show ?thesis by blast
qed

section \<open>Batch lookup\<close>

lemma isUserFound_callback_handled:
  "i \<noteq> UnhandledIdentifier \<Longrightarrow> isUserFound_callback i u = Inr (first_entry_matches i u)"
proof (cases i)
  case (ProviderIdentifier p q)
  have found: "List.find (\<lambda>userInfo. p = providerId userInfo) pd =
      (case filter (\<lambda>entry. providerId entry = p) pd of
         [] \<Rightarrow> None | entry # others \<Rightarrow> Some entry)" for pd :: "user_info list"
    by (induction pd) auto
  show ?thesis
    unfolding ProviderIdentifier isUserFound_callback.simps first_entry_matches.simps Let_def found
    by (cases "filter (\<lambda>entry. providerId entry = p) (providerData u)") auto
qed auto

lemma isUserFound_handled:
  "i \<noteq> UnhandledIdentifier \<Longrightarrow>
   isUserFound i us = Inr (\<exists>u \<in> set us. first_entry_matches i u)"
  by (induction us) (simp_all add: isUserFound_callback_handled)

lemma filter_throwing_total:
  "(\<And>x. x \<in> set xs \<Longrightarrow> p x = Inr (q x)) \<Longrightarrow> filter_throwing p xs = Inr (filter q xs)"
  by (induction xs) auto

lemma first_entry_matches_distinct:
  assumes "distinct (map providerId (providerData u))"
  shows "first_entry_matches i u = spec_identifier_matches i u"
proof (cases i)
  case (ProviderIdentifier p q)
  have "(case filter (\<lambda>entry. providerId entry = p) pd of
           [] \<Rightarrow> False | entry # others \<Rightarrow> userInfo_uid entry = q)
        = (\<exists>entry \<in> set pd. providerId entry = p \<and> userInfo_uid entry = q)"
    if "distinct (map providerId pd)" for pd :: "user_info list"
    using that
  proof (induction pd)
    case Nil
    then show ?case by simp
  next
    case (Cons e pd)
    show ?case
    proof (cases "providerId e = p")
      case True
      from Cons.prems have "providerId e \<notin> providerId ` set pd" by simp
      with True have "\<forall>entry \<in> set pd. providerId entry \<noteq> p" by (metis imageI)
      with True show ?thesis by auto
    next
      case False
      with Cons show ?thesis by auto
    qed
  qed
  from this [OF assms] ProviderIdentifier show ?thesis by simp
qed auto

lemma first_entry_matches_provider_iff:
  "first_entry_matches (ProviderIdentifier p q) u \<longleftrightarrow>
     (\<exists>k < length (providerData u).
        providerId (providerData u ! k) = p \<and> userInfo_uid (providerData u ! k) = q \<and>
        (\<forall>j < k. providerId (providerData u ! j) \<noteq> p))"
proof -
  have "(case filter (\<lambda>entry. providerId entry = p) pd of
           [] \<Rightarrow> False | entry # others \<Rightarrow> userInfo_uid entry = q)
        = (\<exists>k < length pd. providerId (pd ! k) = p \<and> userInfo_uid (pd ! k) = q \<and>
             (\<forall>j < k. providerId (pd ! j) \<noteq> p))" for pd :: "user_info list"
  proof (induction pd)
    case Nil
    then show ?case by simp
  next
    case (Cons e pd)
    show ?case
    proof (cases "providerId e = p")
      case True
      have "(\<exists>k < length (e # pd). providerId ((e # pd) ! k) = p \<and> userInfo_uid ((e # pd) ! k) = q \<and>
             (\<forall>j < k. providerId ((e # pd) ! j) \<noteq> p)) = (userInfo_uid e = q)"
      proof
        assume "\<exists>k < length (e # pd). providerId ((e # pd) ! k) = p \<and> userInfo_uid ((e # pd) ! k) = q \<and>
             (\<forall>j < k. providerId ((e # pd) ! j) \<noteq> p)"
        then obtain k where k: "userInfo_uid ((e # pd) ! k) = q"
          "\<forall>j < k. providerId ((e # pd) ! j) \<noteq> p" by blast
        have "k = 0"
        proof (rule ccontr)
          assume "k \<noteq> 0"
          then have "0 < k" by simp
          with k(2) have "providerId ((e # pd) ! 0) \<noteq> p" by blast
          with True show False by simp
        qed
        with k(1) show "userInfo_uid e = q" by simp
      next
        assume "userInfo_uid e = q"
        with True have "0 < length (e # pd) \<and> providerId ((e # pd) ! 0) = p \<and>
            userInfo_uid ((e # pd) ! 0) = q \<and> (\<forall>j < 0. providerId ((e # pd) ! j) \<noteq> p)"
          by simp
        then show "\<exists>k < length (e # pd). providerId ((e # pd) ! k) = p \<and> userInfo_uid ((e # pd) ! k) = q \<and>
             (\<forall>j < k. providerId ((e # pd) ! j) \<noteq> p)" by blast
      qed
      with True show ?thesis by simp
    next
      case False
      have "(\<exists>k < length (e # pd). providerId ((e # pd) ! k) = p \<and> userInfo_uid ((e # pd) ! k) = q \<and>
             (\<forall>j < k. providerId ((e # pd) ! j) \<noteq> p))
          = (\<exists>k < length pd. providerId (pd ! k) = p \<and> userInfo_uid (pd ! k) = q \<and>
             (\<forall>j < k. providerId (pd ! j) \<noteq> p))"
      proof
        assume "\<exists>k < length (e # pd). providerId ((e # pd) ! k) = p \<and> userInfo_uid ((e # pd) ! k) = q \<and>
             (\<forall>j < k. providerId ((e # pd) ! j) \<noteq> p)"
        then obtain k where k: "k < length (e # pd)" "providerId ((e # pd) ! k) = p"
          "userInfo_uid ((e # pd) ! k) = q" "\<forall>j < k. providerId ((e # pd) ! j) \<noteq> p" by blast
        from k(2) False obtain k' where k': "k = Suc k'" by (cases k) auto
        have "\<forall>j < k'. providerId (pd ! j) \<noteq> p"
        proof (intro allI impI)
          fix j assume "j < k'"
          then have "Suc j < k" using k' by simp
          with k(4) have "providerId ((e # pd) ! Suc j) \<noteq> p" by blast
          then show "providerId (pd ! j) \<noteq> p" by simp
        qed
        with k k' show "\<exists>k < length pd. providerId (pd ! k) = p \<and> userInfo_uid (pd ! k) = q \<and>
             (\<forall>j < k. providerId (pd ! j) \<noteq> p)" by auto
      next
        assume "\<exists>k < length pd. providerId (pd ! k) = p \<and> userInfo_uid (pd ! k) = q \<and>
             (\<forall>j < k. providerId (pd ! j) \<noteq> p)"
        then obtain k where k: "k < length pd" "providerId (pd ! k) = p"
          "userInfo_uid (pd ! k) = q" "\<forall>j < k. providerId (pd ! j) \<noteq> p" by blast
        have "\<forall>j < Suc k. providerId ((e # pd) ! j) \<noteq> p"
        proof (intro allI impI)
          fix j assume "j < Suc k"
          then show "providerId ((e # pd) ! j) \<noteq> p"
            using False k(4) by (cases j) auto
        qed
        with k have "Suc k < length (e # pd) \<and> providerId ((e # pd) ! Suc k) = p \<and>
            userInfo_uid ((e # pd) ! Suc k) = q \<and> (\<forall>j < Suc k. providerId ((e # pd) ! j) \<noteq> p)"
          by simp
        then show "\<exists>k < length (e # pd). providerId ((e # pd) ! k) = p \<and> userInfo_uid ((e # pd) ! k) = q \<and>
             (\<forall>j < k. providerId ((e # pd) ! j) \<noteq> p)" by blast
      qed
      with False Cons.IH show ?thesis by simp
    qed
  qed
  then show ?thesis by simp
qed

lemma map_throwing_converted: "map f xs = map Inr ys \<Longrightarrow> map_throwing f xs = Inr ys"
proof (induction xs arbitrary: ys)
  case Nil
  then show ?case by simp
next
  case (Cons x xs)
  then obtain y zs where "ys = y # zs" "f x = Inr y" "map f xs = map Inr zs"
    by (cases ys) auto
  with Cons.IH [of zs] show ?case by simp
qed

lemma example_accounts_converted:
  "map (new_UserRecord example_collaborators) example_accounts = map Inr [example_alice, example_bob]"
  by (simp add: example_collaborators_def example_accounts_def example_UserRecord_def
      example_string_field_def example_UserInfo_def example_alice_def example_bob_def)

text \<open>
  What \<open>getUsers\<close> computes when the request handler answers, every returned account
  converts to a user record and every identifier is of one of the four kinds: \<open>users\<close>
  is the records of all returned accounts in the order returned, \<open>notFound\<close> the
  requested identifiers, in the order requested, that no returned account matches, a
  provider link being decided by the first provider entry with its provider id. For
  accounts with at most one entry per provider id that is the rule of the spec.
\<close>

lemma getUsers_resolves:
  assumes responded: "getAccountInfoByIdentifiers (authRequestHandler a) ids = (Inr resp, t)"
    and converted:
      "map (new_UserRecord c) (case response_users resp of None \<Rightarrow> [] | Some vs \<Rightarrow> vs)
         = map Inr us"
    and handled: "UnhandledIdentifier \<notin> set ids"
  shows "getUsers c a (ArrayOf ids) =
           (Inr \<lparr>users = us,
                 notFound = filter (\<lambda>i. \<not> (\<exists>u \<in> set us. first_entry_matches i u)) ids\<rparr>, t)
       \<and> ((\<forall>u \<in> set us. distinct (map providerId (providerData u))) \<longrightarrow>
            getUsers c a (ArrayOf ids) =
              (Inr \<lparr>users = us,
                    notFound = filter (\<lambda>i. \<not> (\<exists>u \<in> set us. spec_identifier_matches i u)) ids\<rparr>,
               t))"
proof -
  have records:
    "(case response_users resp of None \<Rightarrow> Inr [] | Some vs \<Rightarrow> map_throwing (new_UserRecord c) vs)
       = Inr us"
    using converted by (cases "response_users resp") (simp_all add: map_throwing_converted)
  have "\<And>i. i \<in> set ids \<Longrightarrow>
          map_sum id Not (isUserFound i us) = Inr (\<not> (\<exists>u \<in> set us. first_entry_matches i u))"
  proof -
    fix i assume "i \<in> set ids"
    with handled have "i \<noteq> UnhandledIdentifier" by auto
    then show "map_sum id Not (isUserFound i us) = Inr (\<not> (\<exists>u \<in> set us. first_entry_matches i u))"
      by (simp add: isUserFound_handled)
  qed
  then have missing:
    "filter_throwing (\<lambda>i. map_sum id Not (isUserFound i us)) ids
       = Inr (filter (\<lambda>i. \<not> (\<exists>u \<in> set us. first_entry_matches i u)) ids)"
    by (rule filter_throwing_total)
  have first: "getUsers c a (ArrayOf ids) =
           (Inr \<lparr>users = us,
                 notFound = filter (\<lambda>i. \<not> (\<exists>u \<in> set us. first_entry_matches i u)) ids\<rparr>, t)"
    by (simp add: getUsers_def responded promise_then_def records missing resolve_def)
  have "filter (\<lambda>i. \<not> (\<exists>u \<in> set us. first_entry_matches i u)) ids
          = filter (\<lambda>i. \<not> (\<exists>u \<in> set us. spec_identifier_matches i u)) ids"
    if "\<forall>u \<in> set us. distinct (map providerId (providerData u))"
    using that by (intro filter_cong refl) (simp add: first_entry_matches_distinct)
  with first show ?thesis by simp
qed

lemma getUsers_resolves_example:
  "getAccountInfoByIdentifiers (authRequestHandler (example_auth example_accounts None))
       example_identifiers
     = (Inr \<lparr>response_users = Some example_accounts\<rparr>,
        [GetAccountsByIdentifiers example_identifiers])
   \<and> map (new_UserRecord example_collaborators) example_accounts
       = map Inr [example_alice, example_bob]
   \<and> UnhandledIdentifier \<notin> set example_identifiers
   \<and> getUsers example_collaborators (example_auth example_accounts None)
         (ArrayOf example_identifiers)
       = (Inr \<lparr>users = [example_alice, example_bob],
                notFound = [EmailIdentifier ''b@x.com'', ProviderIdentifier ''google.com'' ''g-2'']\<rparr>,
          [GetAccountsByIdentifiers example_identifiers])
   \<and> getAccountInfoByIdentifiers (authRequestHandler (example_auth (take 1 example_accounts) None))
       example_identifiers
     = (Inr \<lparr>response_users = Some (take 1 example_accounts)\<rparr>,
        [GetAccountsByIdentifiers example_identifiers])
   \<and> map (new_UserRecord example_collaborators) (take 1 example_accounts) = map Inr [example_alice]
   \<and> list_all (\<lambda>u. distinct (map providerId (providerData u))) [example_alice]
   \<and> getUsers example_collaborators (example_auth (take 1 example_accounts) None)
         (ArrayOf example_identifiers)
       = (Inr \<lparr>users = [example_alice],
                notFound = [EmailIdentifier ''b@x.com'', PhoneIdentifier ''+15551234'',
                            ProviderIdentifier ''google.com'' ''g-1'',
                            ProviderIdentifier ''google.com'' ''g-2'']\<rparr>,
          [GetAccountsByIdentifiers example_identifiers])"
proof -
  have both:
    "getAccountInfoByIdentifiers (authRequestHandler (example_auth example_accounts None))
       example_identifiers
     = (Inr \<lparr>response_users = Some example_accounts\<rparr>,
        [GetAccountsByIdentifiers example_identifiers])"
    by (simp add: example_auth_def example_handler_def)
  have both_converted:
    "map (new_UserRecord example_collaborators)
       (case response_users \<lparr>response_users = Some example_accounts\<rparr> of
          None \<Rightarrow> [] | Some vs \<Rightarrow> vs)
     = map Inr [example_alice, example_bob]"
    using example_accounts_converted by simp
  have handled: "UnhandledIdentifier \<notin> set example_identifiers"
    by (simp add: example_identifiers_def)
  have one:
    "getAccountInfoByIdentifiers (authRequestHandler (example_auth (take 1 example_accounts) None))
       example_identifiers
     = (Inr \<lparr>response_users = Some (take 1 example_accounts)\<rparr>,
        [GetAccountsByIdentifiers example_identifiers])"
    by (simp add: example_auth_def example_handler_def)
  have one_converted':
    "map (new_UserRecord example_collaborators) (take 1 example_accounts) = map Inr [example_alice]"
    by (simp add: example_collaborators_def example_accounts_def example_UserRecord_def
      example_string_field_def example_alice_def)
  then have one_converted:
    "map (new_UserRecord example_collaborators)
       (case response_users \<lparr>response_users = Some (take 1 example_accounts)\<rparr> of
          None \<Rightarrow> [] | Some vs \<Rightarrow> vs)
     = map Inr [example_alice]"
    by simp
  have unique: "list_all (\<lambda>u. distinct (map providerId (providerData u))) [example_alice]"
    by (simp add: example_alice_def)
  then have unique': "\<forall>u \<in> set [example_alice]. distinct (map providerId (providerData u))"
    by simp
  have missing_both:
    "filter (\<lambda>i. \<not> (\<exists>u \<in> set [example_alice, example_bob]. first_entry_matches i u))
       example_identifiers
     = [EmailIdentifier ''b@x.com'', ProviderIdentifier ''google.com'' ''g-2'']"
    by (simp add: example_identifiers_def example_alice_def example_bob_def)
  have missing_one:
    "filter (\<lambda>i. \<not> (\<exists>u \<in> set [example_alice]. spec_identifier_matches i u))
       example_identifiers
     = [EmailIdentifier ''b@x.com'', PhoneIdentifier ''+15551234'',
        ProviderIdentifier ''google.com'' ''g-1'', ProviderIdentifier ''google.com'' ''g-2'']"
    by (simp add: example_identifiers_def example_alice_def)
  from getUsers_resolves [OF both both_converted handled]
  have 1: "getUsers example_collaborators (example_auth example_accounts None)
         (ArrayOf example_identifiers)
       = (Inr \<lparr>users = [example_alice, example_bob],
                notFound = [EmailIdentifier ''b@x.com'', ProviderIdentifier ''google.com'' ''g-2'']\<rparr>,
          [GetAccountsByIdentifiers example_identifiers])"
    unfolding missing_both by blast
  from unique' getUsers_resolves [OF one one_converted handled]
  have 2: "getUsers example_collaborators (example_auth (take 1 example_accounts) None)
         (ArrayOf example_identifiers)
       = (Inr \<lparr>users = [example_alice],
                notFound = [EmailIdentifier ''b@x.com'', PhoneIdentifier ''+15551234'',
                            ProviderIdentifier ''google.com'' ''g-1'',
                            ProviderIdentifier ''google.com'' ''g-2'']\<rparr>,
          [GetAccountsByIdentifiers example_identifiers])"
    unfolding missing_one by blast
  from both example_accounts_converted handled 1 one one_converted' unique 2
  show ?thesis by blast
qed

text \<open>
  Claim C5. The claim has a provider-link identifier matched by an account that has a
  provider entry with equal provider id and equal provider uid, and \<open>notFound\<close> hold
  exactly the identifiers no returned account matches. The code takes the first entry of
  \<open>providerData\<close> with the provider id and compares that entry's uid only: for an account
  linked as \<open>(google.com, g-1)\<close> and \<open>(google.com, g-2)\<close>, the identifier
  \<open>(google.com, g-1)\<close> is found and the identifier \<open>(google.com, g-2)\<close> is reported
  not found, although the account carries that link.
\<close>

theorem C5_second_provider_entry_not_found:
  "getUsers example_collaborators (example_auth example_accounts None)
       (ArrayOf [ProviderIdentifier ''google.com'' ''g-2''])
     = (Inr \<lparr>users = [example_alice, example_bob],
              notFound = [ProviderIdentifier ''google.com'' ''g-2'']\<rparr>,
        [GetAccountsByIdentifiers [ProviderIdentifier ''google.com'' ''g-2'']])
   \<and> \<lparr>providerId = ''google.com'', userInfo_uid = ''g-2''\<rparr> \<in> set (providerData example_bob)
   \<and> spec_identifier_matches (ProviderIdentifier ''google.com'' ''g-2'') example_bob
   \<and> getUsers example_collaborators (example_auth example_accounts None)
       (ArrayOf [ProviderIdentifier ''google.com'' ''g-1''])
     = (Inr \<lparr>users = [example_alice, example_bob], notFound = []\<rparr>,
        [GetAccountsByIdentifiers [ProviderIdentifier ''google.com'' ''g-1'']])"
  by (simp add: getUsers_def example_auth_def example_handler_def promise_then_def resolve_def
      example_collaborators_def example_accounts_def example_UserRecord_def
      example_string_field_def example_UserInfo_def example_alice_def example_bob_def)

section \<open>Tenant options\<close>

lemma validate_keys_rejects:
  assumes "key \<in> set keys" and "\<not> js_in key validKeys"
  shows "\<exists>k \<in> set keys. \<not> js_in k validKeys \<and>
           validate_keys label keys =
             Inl (FirebaseAuthError INVALID_ARGUMENT
                    (Some (dquote @ k @ dquote @ '' is not a valid '' @ label @ '' parameter.'')))"
  using assms
proof (induction keys)
  case Nil
  then show ?case by simp
next
  case (Cons k keys)
  show ?case
  proof (cases "js_in k validKeys")
    case True
    with Cons.prems have "key \<in> set keys" by auto
    from Cons.IH [OF this Cons.prems(2)] True show ?thesis by auto
  next
    case False
    then show ?thesis by auto
  qed
qed

lemma validate_rejects_unlisted_key:
  assumes "isNonNullObject request" and "key \<in> set (js_keys request)"
    and "key \<notin> set validKeys" and "key \<notin> set object_prototype_properties"
  shows "\<exists>k \<in> set (js_keys request). k \<notin> set validKeys \<and>
           validate c request createRequest =
             Inl (FirebaseAuthError INVALID_ARGUMENT
                    (Some (dquote @ k @ dquote @ '' is not a valid '' @
                           (if createRequest then ''CreateTenantRequest''
                            else ''UpdateTenantRequest'') @ '' parameter.'')))"
proof -
  from assms(3,4) have "\<not> js_in key validKeys" by (simp add: js_in_def)
  from validate_keys_rejects [OF assms(2) this,
      of "if createRequest then ''CreateTenantRequest'' else ''UpdateTenantRequest''"]
  obtain k where k: "k \<in> set (js_keys request)" "\<not> js_in k validKeys"
    "validate_keys (if createRequest then ''CreateTenantRequest'' else ''UpdateTenantRequest'')
       (js_keys request) =
     Inl (FirebaseAuthError INVALID_ARGUMENT
            (Some (dquote @ k @ dquote @ '' is not a valid '' @
                   (if createRequest then ''CreateTenantRequest''
                    else ''UpdateTenantRequest'') @ '' parameter.'')))"
    by blast
  from k(2) have "k \<notin> set validKeys" by (simp add: js_in_def)
  moreover from k(3) assms(1) have "validate c request createRequest =
             Inl (FirebaseAuthError INVALID_ARGUMENT
                    (Some (dquote @ k @ dquote @ '' is not a valid '' @
                           (if createRequest then ''CreateTenantRequest''
                            else ''UpdateTenantRequest'') @ '' parameter.'')))"
    by (simp add: validate_def and_then_def Let_def)
  ultimately show ?thesis using k(1) by blast
qed

lemma validate_bogusKey:
  "validate c (JsObject [(''bogusKey'', JsNumber 1)]) True =
     Inl (FirebaseAuthError INVALID_ARGUMENT
            (Some (dquote @ ''bogusKey'' @ dquote @ '' is not a valid CreateTenantRequest parameter.'')))"
  by (simp add: validate_def isNonNullObject_def js_in_def validKeys_def
      object_prototype_properties_def and_then_def)

text \<open>
  Claim C9. The claim has \<open>validate\<close> reject every object with a top-level key outside
  \<open>displayName\<close>, \<open>emailSignInConfig\<close>, \<open>multiFactorConfig\<close>, \<open>testPhoneNumbers\<close>.
  The code tests \<open>key in validKeys\<close>, which also holds for the names \<open>validKeys\<close>
  inherits from \<open>Object.prototype\<close>: an object whose only key is \<open>toString\<close> passes the
  validation, for a create and for an update request. (\<open>validate_rejects_unlisted_key\<close>
  above is what the code does achieve: a key that is neither listed nor inherited is
  rejected with \<open>INVALID_ARGUMENT\<close>, the message naming the first such key.)
\<close>

theorem C9_inherited_key_accepted:
  "''toString'' \<notin> set validKeys
   \<and> ''toString'' \<in> set (js_keys (JsObject [(''toString'', JsNumber 1)]))
   \<and> validate c (JsObject [(''toString'', JsNumber 1)]) True = Inr ()
   \<and> validate c (JsObject [(''toString'', JsNumber 1)]) False = Inr ()"
  by (simp add: validate_def isNonNullObject_def js_in_def validKeys_def
      object_prototype_properties_def and_then_def)

end
